theory Spec2Isabelle
  imports Main "HOL-Library.Sublist"
begin

section \<open>The follow-up interaction handler (followUps/handler.ts)\<close>

text \<open>
  The handler owns no data of its own: every effect is a call on one of its three
  collaborators (the chat surface \<open>mynahUI\<close>, the tab registry \<open>tabsStorage\<close>, the
  backend \<open>connector\<close>). A run of a method is therefore modelled as the list of the
  collaborator calls it makes, in program order, each with its arguments.
  JavaScript strings are modelled as \<open>string\<close>, an optional field (\<open>undefined\<close> when
  unset) as an \<open>option\<close>.
\<close>

subsection \<open>Data\<close>

text \<open>\<open>ChatItemFollowUp\<close>: the handler reads \<open>type\<close> and \<open>prompt\<close> and forwards the whole object.\<close>

record chatItemFollowUp =
  fu_type :: "string option"
  fu_prompt :: "string option"
  fu_pillText :: string

datatype chatItemType = PROMPT | ANSWER_STREAM | ANSWER

record chatItem =
  ci_type :: chatItemType
  ci_body :: string

datatype notificationType = INFO | SUCCESS | WARNING | ERROR

record notification =
  nt_content :: string
  nt_type :: notificationType

text \<open>The object literal handed to \<open>tabsStorage.addTab\<close>.\<close>

record tab =
  tab_id :: string
  tab_status :: string
  tab_type :: string
  tab_isSelected :: bool
  tab_openInteractionType :: string

text \<open>
  The two kinds of payload given to \<open>mynahUI.updateStore\<close>: the object literal
  \<open>{loadingChat, promptInputDisabledState}\<close>, and the value of
  \<open>tabDataGenerator.getTabData(tabType, needWelcomeMessages, taskName, command)\<close>.
  The generator is built in the constructor from the two feature flags; its output is kept
  symbolic (the flags and the four arguments of the call).
\<close>

datatype storeData =
  LoadingState bool bool
  | GetTabData bool bool string bool string string

datatype handlerEvent =
  Connector_onAuthFollowUpClicked string string
  | Connector_onFollowUpClicked string string chatItemFollowUp
  | Connector_onUpdateTabType string
  | Connector_onKnownTabOpen string
  | MynahUI_updateStore string storeData
  | MynahUI_addChatItem string chatItem
  | MynahUI_notify notification
  | TabsStorage_addTab tab
  | TabsStorage_updateTabStatus string string
  | TabsStorage_resetTabTimer string
  | TabsStorage_updateTabTypeFromUnknown string string

text \<open>
  \<open>FollowUpInteractionHandlerProps\<close>. The two flags are the source's; \<open>updateStore_returns\<close>
  is the answer of the chat surface to \<open>updateStore\<close> (a new tab identifier, or \<open>undefined\<close>
  when no tab can be created), and \<open>noMoreTabsTooltip\<close> is the text constant
  \<open>uiComponentsTexts.noMoreTabsTooltip\<close>, declared outside the handler.
\<close>

record handlerProps =
  isWeaverbirdEnabled :: bool
  isGumbyEnabled :: bool
  updateStore_returns :: "string \<Rightarrow> storeData \<Rightarrow> string option"
  noMoreTabsTooltip :: string

subsection \<open>\<open>onFollowUpClicked\<close>\<close>

text \<open>
  The first test of the source, \<open>followUp.type !== undefined && ['full-auth',
  're-auth'].includes(followUp.type)\<close>, returns after its one call when it holds; the rest
  of the body is bound to \<open>proceed\<close> here.
\<close>

definition onFollowUpClicked :: "string \<Rightarrow> string \<Rightarrow> chatItemFollowUp \<Rightarrow> handlerEvent list" where
  "onFollowUpClicked tabID messageId followUp =
     (let proceed =
            (case fu_prompt followUp of
               Some prompt \<Rightarrow>
                 [MynahUI_updateStore tabID (LoadingState True True),
                  MynahUI_addChatItem tabID \<lparr>ci_type = PROMPT, ci_body = prompt\<rparr>,
                  MynahUI_addChatItem tabID \<lparr>ci_type = ANSWER_STREAM, ci_body = ''''\<rparr>,
                  TabsStorage_updateTabStatus tabID ''busy'',
                  TabsStorage_resetTabTimer tabID]
             | None \<Rightarrow> [])
            @ [Connector_onFollowUpClicked tabID messageId followUp]
      in case fu_type followUp of
           None \<Rightarrow> proceed
         | Some t \<Rightarrow>
             if t \<in> set [''full-auth'', ''re-auth'']
             then [Connector_onAuthFollowUpClicked tabID t]
             else proceed)"

subsection \<open>\<open>onWelcomeFollowUpClicked\<close>\<close>

definition onWelcomeFollowUpClicked :: "handlerProps \<Rightarrow> string \<Rightarrow> string \<Rightarrow> handlerEvent list" where
  "onWelcomeFollowUpClicked props tabID welcomeFollowUpType =
     (if welcomeFollowUpType = ''assign-code-task'' then
        (let tabData = GetTabData (isWeaverbirdEnabled props) (isGumbyEnabled props)
                         ''wb'' True ''Q - Dev'' ''/dev''
         in MynahUI_updateStore '''' tabData #
            (case updateStore_returns props '''' tabData of
               Some newTabId \<Rightarrow>
                 [TabsStorage_addTab
                    \<lparr>tab_id = newTabId, tab_status = ''busy'', tab_type = ''unknown'',
                     tab_isSelected = True, tab_openInteractionType = ''click''\<rparr>,
                  TabsStorage_updateTabTypeFromUnknown tabID ''cwc'',
                  Connector_onUpdateTabType tabID,
                  TabsStorage_updateTabTypeFromUnknown newTabId ''wb'',
                  Connector_onUpdateTabType newTabId,
                  Connector_onKnownTabOpen newTabId]
             | None \<Rightarrow>
                 [MynahUI_notify \<lparr>nt_content = noMoreTabsTooltip props, nt_type = WARNING\<rparr>]))
      else if welcomeFollowUpType = ''continue-to-chat'' then
        [MynahUI_addChatItem tabID
           \<lparr>ci_type = ANSWER, ci_body = ''Ok, please write your question below.''\<rparr>,
         TabsStorage_updateTabTypeFromUnknown tabID ''cwc'',
         Connector_onUpdateTabType tabID]
      else [])"

subsection \<open>Reading a trace\<close>

fun isChatItemAppend :: "handlerEvent \<Rightarrow> bool" where
  "isChatItemAppend (MynahUI_addChatItem _ _) = True"
| "isChatItemAppend _ = False"

fun isTabsStorageCall :: "handlerEvent \<Rightarrow> bool" where
  "isTabsStorageCall (TabsStorage_addTab _) = True"
| "isTabsStorageCall (TabsStorage_updateTabStatus _ _) = True"
| "isTabsStorageCall (TabsStorage_resetTabTimer _) = True"
| "isTabsStorageCall (TabsStorage_updateTabTypeFromUnknown _ _) = True"
| "isTabsStorageCall _ = False"

fun isStoreOrStatusUpdate :: "handlerEvent \<Rightarrow> bool" where
  "isStoreOrStatusUpdate (MynahUI_updateStore _ _) = True"
| "isStoreOrStatusUpdate e = isTabsStorageCall e"

fun isBackendCall :: "handlerEvent \<Rightarrow> bool" where
  "isBackendCall (Connector_onAuthFollowUpClicked _ _) = True"
| "isBackendCall (Connector_onFollowUpClicked _ _ _) = True"
| "isBackendCall (Connector_onUpdateTabType _) = True"
| "isBackendCall (Connector_onKnownTabOpen _) = True"
| "isBackendCall _ = False"

fun isNotify :: "handlerEvent \<Rightarrow> bool" where
  "isNotify (MynahUI_notify _) = True"
| "isNotify _ = False"

subsection \<open>The tab registry\<close>

text \<open>
  Modelled from the spec: the tab registry (\<open>TabsStorage\<close>) is not among the source
  files; only the handler's calls on it are. The spec describes it as the owner of the tab records, each
  identified by a unique string identifier and carrying a mutable status and a type tag,
  with a \<open>retag\<close> operation that moves a tab's type away from \<open>unknown\<close>. Accordingly:
  registering an identifier that is already present leaves the registry as it is,
  \<open>updateTabTypeFromUnknown\<close> changes the type of a present tab whose type is \<open>unknown\<close>
  and nothing else, \<open>updateTabStatus\<close> changes the status of a present tab, and the timer
  reset does not touch the records.
\<close>

type_synonym tabRegistry = "string \<rightharpoonup> tab"

fun tabsStorage_apply :: "tabRegistry \<Rightarrow> handlerEvent \<Rightarrow> tabRegistry" where
  "tabsStorage_apply reg (TabsStorage_addTab t) =
     (case reg (tab_id t) of None \<Rightarrow> reg(tab_id t \<mapsto> t) | Some _ \<Rightarrow> reg)"
| "tabsStorage_apply reg (TabsStorage_updateTabStatus tabID st) =
     (case reg tabID of None \<Rightarrow> reg | Some t \<Rightarrow> reg(tabID \<mapsto> t\<lparr>tab_status := st\<rparr>))"
| "tabsStorage_apply reg (TabsStorage_updateTabTypeFromUnknown tabID ty) =
     (case reg tabID of
        None \<Rightarrow> reg
      | Some t \<Rightarrow> if tab_type t = ''unknown'' then reg(tabID \<mapsto> t\<lparr>tab_type := ty\<rparr>) else reg)"
| "tabsStorage_apply reg _ = reg"

definition tabsStorage_after :: "tabRegistry \<Rightarrow> handlerEvent list \<Rightarrow> tabRegistry" where
  "tabsStorage_after reg tr = foldl tabsStorage_apply reg tr"

definition tabTypeIn :: "tabRegistry \<Rightarrow> string \<Rightarrow> string option" where
  "tabTypeIn reg tabID = map_option tab_type (reg tabID)"

section \<open>The workspace creation wizard (the webview controller)\<close>

subsection \<open>Strings as JavaScript handles them\<close>

text \<open>
  Only ASCII characters are told apart by the operations below (word characters and the
  delimiters \<open>: / ? # @ . %\<close>), so a string is a list of \<open>char\<close> in any encoding that
  keeps ASCII.
\<close>

definition isWordChar :: "char \<Rightarrow> bool" where
  "isWordChar c \<longleftrightarrow>
     c \<in> set ''abcdefghijklmnopqrstuvwxyzABCDEFGHIJKLMNOPQRSTUVWXYZ0123456789_''"

definition isAlnumChar :: "char \<Rightarrow> bool" where
  "isAlnumChar c \<longleftrightarrow>
     c \<in> set ''abcdefghijklmnopqrstuvwxyzABCDEFGHIJKLMNOPQRSTUVWXYZ0123456789''"

text \<open>\<open>/^[\w]+@/.test(s)\<close>: a non-empty run of word characters at the start, then \<open>@\<close>.\<close>

definition isSchemeless :: "string \<Rightarrow> bool" where
  "isSchemeless s \<longleftrightarrow>
     takeWhile isWordChar s \<noteq> [] \<and>
     (case dropWhile isWordChar s of [] \<Rightarrow> False | c # _ \<Rightarrow> c = CHR ''@'')"

text \<open>\<open>s.split(sep)\<close> for a one-character separator: never the empty array.\<close>

fun split_char :: "char \<Rightarrow> string \<Rightarrow> string list" where
  "split_char sep [] = [[]]"
| "split_char sep (c # cs) =
     (if c = sep then [] # split_char sep cs
      else (case split_char sep cs of
              [] \<Rightarrow> [[c]]
            | seg # segs \<Rightarrow> (c # seg) # segs))"

text \<open>\<open>xs.pop()\<close>: the last element, \<open>undefined\<close> on the empty array.\<close>

definition pop :: "'a list \<Rightarrow> 'a option" where
  "pop xs = (if xs = [] then None else Some (last xs))"

text \<open>\<open>s.replace(/\.git$/, '')\<close>: without the \<open>m\<close> flag, \<open>$\<close> is the end of the input.\<close>

definition replace_git_suffix :: "string \<Rightarrow> string" where
  "replace_git_suffix s =
     (if suffix ''.git'' s then take (length s - 4) s else s)"

text \<open>
  \<open>s.replace(pat, rep)\<close> with a string pattern: the first occurrence of \<open>pat\<close>, wherever it
  is, is replaced; no occurrence, no change.
\<close>

fun replace_first :: "string \<Rightarrow> string \<Rightarrow> string \<Rightarrow> string" where
  "replace_first pat rep [] = (if pat = [] then rep else [])"
| "replace_first pat rep (c # cs) =
     (if prefix pat (c # cs) then rep @ drop (length pat) (c # cs)
      else c # replace_first pat rep cs)"

subsection \<open>\<open>vscode.Uri.parse(value, true)\<close>\<close>

text \<open>
  The editor's URI class is a library, not part of the repository. The model follows its
  implementation: the components are cut by the regular expression of RFC 3986,
  appendix B,
  \<^verbatim>\<open>^(([^:/?#]+?):)?(\/\/([^/?#]*))?([^?#]*)(\?([^#]*))?(#(.*))?\<close>,
  authority and path are percent-decoded, the path of an \<open>http\<close>, \<open>https\<close> or \<open>file\<close>
  URI is made to start with a slash, and the strict mode validates scheme and path.
  What follows the path (query and fragment) is kept unsplit in \<open>uri_rest\<close>: the wizard
  only reads \<open>path\<close>. Percent-decoding returns its argument when it holds no
  \<open>%\<close> followed by two alphanumerics; otherwise the decoding of the hexadecimal runs
  (\<open>decodeURIComponent\<close>, with the library's fallback) is the parameter \<open>dec\<close>.
\<close>

record uri =
  uri_scheme :: string
  uri_authority :: string
  uri_path :: string
  uri_rest :: string

datatype uriError =
  SchemeIsMissing | SchemeIllegalCharacters | PathMustBeginWithSlash | PathBeginsWithTwoSlashes

fun hasEncodedHex :: "string \<Rightarrow> bool" where
  "hasEncodedHex (a # b # c # rest) =
     ((a = CHR ''%'' \<and> isAlnumChar b \<and> isAlnumChar c) \<or> hasEncodedHex (b # c # rest))"
| "hasEncodedHex _ = False"

definition percentDecode :: "(string \<Rightarrow> string) \<Rightarrow> string \<Rightarrow> string" where
  "percentDecode dec str = (if \<not> hasEncodedHex str then str else dec str)"

definition notIn :: "string \<Rightarrow> char \<Rightarrow> bool" where
  "notIn delims c \<longleftrightarrow> c \<notin> set delims"

text \<open>Groups 2, 4, 5 of the regular expression, and the unmatched rest with groups 6 to 9.\<close>

definition uri_regexp_exec :: "string \<Rightarrow> string \<times> string \<times> string \<times> string" where
  "uri_regexp_exec v =
     (let hd1 = takeWhile (notIn '':/?#'') v;
          tl1 = dropWhile (notIn '':/?#'') v;
          hasScheme = (hd1 \<noteq> [] \<and> prefix '':'' tl1);
          scheme = (if hasScheme then hd1 else []);
          v2 = (if hasScheme then drop 1 tl1 else v);
          hasAuthority = prefix ''//'' v2;
          authority = (if hasAuthority then takeWhile (notIn ''/?#'') (drop 2 v2) else []);
          v3 = (if hasAuthority then dropWhile (notIn ''/?#'') (drop 2 v2) else v2);
          path = takeWhile (notIn ''?#'') v3;
          rest = dropWhile (notIn ''?#'') v3
      in (scheme, authority, path, rest))"

definition referenceResolution :: "string \<Rightarrow> string \<Rightarrow> string" where
  "referenceResolution scheme path =
     (if scheme \<in> set [''https'', ''http'', ''file''] then
        (case path of
           [] \<Rightarrow> ''/''
         | c # _ \<Rightarrow> if c \<noteq> CHR ''/'' then ''/'' @ path else path)
      else path)"

text \<open>\<open>/^\w[\w\d+.-]*$/\<close>\<close>

definition schemePattern :: "string \<Rightarrow> bool" where
  "schemePattern s \<longleftrightarrow>
     (case s of
        [] \<Rightarrow> False
      | c # cs \<Rightarrow> isWordChar c \<and> list_all (\<lambda>d. isWordChar d \<or> d \<in> set ''+.-'') cs)"

definition validateUri_strict :: "uri \<Rightarrow> uriError option" where
  "validateUri_strict u =
     (if uri_scheme u = [] then Some SchemeIsMissing
      else if \<not> schemePattern (uri_scheme u) then Some SchemeIllegalCharacters
      else if uri_path u \<noteq> [] \<and> uri_authority u \<noteq> [] \<and> \<not> prefix ''/'' (uri_path u)
        then Some PathMustBeginWithSlash
      else if uri_path u \<noteq> [] \<and> uri_authority u = [] \<and> prefix ''//'' (uri_path u)
        then Some PathBeginsWithTwoSlashes
      else None)"

definition uri_parse_strict :: "(string \<Rightarrow> string) \<Rightarrow> string \<Rightarrow> uriError + uri" where
  "uri_parse_strict dec v =
     (case uri_regexp_exec v of
        (scheme, authority, path, rest) \<Rightarrow>
          (let u = \<lparr>uri_scheme = scheme,
                    uri_authority = percentDecode dec authority,
                    uri_path = referenceResolution scheme (percentDecode dec path),
                    uri_rest = rest\<rparr>
           in case validateUri_strict u of Some e \<Rightarrow> Inl e | None \<Rightarrow> Inr u))"

subsection \<open>Data of the wizard\<close>

record cawsOrg =
  org_name :: string

record cawsProject =
  project_name :: string
  project_org :: cawsOrg

record cawsRepo =
  repo_name :: string

record cawsBranch =
  branch_name :: string
  branch_repo :: cawsRepo

text \<open>\<open>SourceResponse = LinkedResponse | CloneResponse | EmptyResponse\<close>, tagged by \<open>type\<close>.\<close>

datatype sourceResponse =
  Linked cawsProject cawsBranch
  | Clone string
  | Empty

text \<open>
  \<open>WorkspaceSettings\<close> is declared outside the file; its keys are the four cases of the
  switch in \<open>editSetting\<close>.
\<close>

record workspaceSettings =
  settings_alias :: "string option"
  instanceType :: string
  inactivityTimeoutMinutes :: nat
  persistentStorage :: nat

record ide =
  ide_name :: string

record repositoryInput =
  repositoryName :: string
  branchName :: string

text \<open>
  The argument of \<open>client.createDevelopmentWorkspace\<close>. The spread \<open>...settings\<close> comes
  last in each object literal; the keys of the settings are none of \<open>ides\<close>,
  \<open>projectName\<close>, \<open>organizationName\<close>, \<open>repositories\<close>, so it adds its four keys and
  replaces nothing. A literal without \<open>repositories\<close> has \<open>None\<close> there.
\<close>

record createWorkspaceRequest =
  req_ides :: "ide list"
  req_projectName :: string
  req_organizationName :: string
  req_repositories :: "repositoryInput list option"
  req_settings :: workspaceSettings

record getProjectRequest =
  gp_name :: string
  gp_organizationName :: string

record createProjectRequest =
  cp_name :: string
  cp_organizationName :: string
  cp_displayName :: string
  cp_description :: string

record developmentWorkspaceId =
  ws_id :: string
  ws_org :: cawsOrg
  ws_project :: cawsProject

record repoRef =
  rr_name :: string
  rr_location :: uri

text \<open>
  What a rejected promise carries: the two errors the wizard throws itself, the error of
  the URI parser, and an error of a collaborator with its \<open>statusCode\<close> (when it has one).
\<close>

datatype error =
  TypeError string
  | CancellationError string
  | UriError uriError
  | CollaboratorError "nat option" string

text \<open>
  A call on a collaborator, with what it was given and what it answered
  (\<open>Inl\<close>: the promise was rejected).
\<close>

datatype wizardEvent =
  SelectCawsResource_project "error + cawsProject option"
  | SelectCawsResource_org "error + cawsOrg option"
  | Client_getProject getProjectRequest "error + cawsProject"
  | Client_createProject createProjectRequest "error + cawsProject"
  | Client_createDevelopmentWorkspace createWorkspaceRequest "error + developmentWorkspaceId"
  | CloneToWorkspace developmentWorkspaceId repoRef "error + unit"
  | OpenDevelopmentWorkspace developmentWorkspaceId "error + unit"

text \<open>
  The collaborators of one submission: the answers of the resource picker, of the service
  client and of the two workspace operations, each a function of what it is asked, and
  the hexadecimal decoding used by the URI parser.
\<close>

record collaborators =
  selectCawsResource_project :: "error + cawsProject option"
  selectCawsResource_org :: "error + cawsOrg option"
  client_getProject :: "getProjectRequest \<Rightarrow> error + cawsProject"
  client_createProject :: "createProjectRequest \<Rightarrow> error + cawsProject"
  client_createDevelopmentWorkspace :: "createWorkspaceRequest \<Rightarrow> error + developmentWorkspaceId"
  cloneToWorkspace :: "developmentWorkspaceId \<Rightarrow> repoRef \<Rightarrow> error + unit"
  openDevelopmentWorkspace :: "developmentWorkspaceId \<Rightarrow> error + unit"
  decodeHexRuns :: "string \<Rightarrow> string"

subsection \<open>Asynchronous steps\<close>

text \<open>
  An \<open>async\<close> function is modelled by the calls it has made on its collaborators, in
  order, and how its promise settles: \<open>Inr\<close> a value, or \<open>Inl\<close> the error thrown.
  \<open>await m (\<lambda>x. k x)\<close> is \<open>const x = await m; k x\<close>: a rejection of \<open>m\<close> ends the
  function there.
\<close>

type_synonym 'a promise = "wizardEvent list \<times> (error + 'a)"

definition resolve :: "'a \<Rightarrow> 'a promise" where
  "resolve x = ([], Inr x)"

definition throw :: "error \<Rightarrow> 'a promise" where
  "throw e = ([], Inl e)"

definition await :: "'a promise \<Rightarrow> ('a \<Rightarrow> 'b promise) \<Rightarrow> 'b promise" where
  "await m k =
     (case m of
        (tr, Inl e) \<Rightarrow> (tr, Inl e)
      | (tr, Inr x) \<Rightarrow> (case k x of (tr', r) \<Rightarrow> (tr @ tr', r)))"

definition call_selectProject :: "collaborators \<Rightarrow> cawsProject option promise" where
  "call_selectProject env =
     ([SelectCawsResource_project (selectCawsResource_project env)],
      selectCawsResource_project env)"

definition call_selectOrg :: "collaborators \<Rightarrow> cawsOrg option promise" where
  "call_selectOrg env =
     ([SelectCawsResource_org (selectCawsResource_org env)], selectCawsResource_org env)"

definition call_getProject :: "collaborators \<Rightarrow> getProjectRequest \<Rightarrow> cawsProject promise" where
  "call_getProject env req =
     ([Client_getProject req (client_getProject env req)], client_getProject env req)"

definition call_createProject :: "collaborators \<Rightarrow> createProjectRequest \<Rightarrow> cawsProject promise" where
  "call_createProject env req =
     ([Client_createProject req (client_createProject env req)], client_createProject env req)"

definition call_createDevelopmentWorkspace ::
  "collaborators \<Rightarrow> createWorkspaceRequest \<Rightarrow> developmentWorkspaceId promise" where
  "call_createDevelopmentWorkspace env req =
     ([Client_createDevelopmentWorkspace req (client_createDevelopmentWorkspace env req)],
      client_createDevelopmentWorkspace env req)"

definition call_cloneToWorkspace ::
  "collaborators \<Rightarrow> developmentWorkspaceId \<Rightarrow> repoRef \<Rightarrow> unit promise" where
  "call_cloneToWorkspace env ws r =
     ([CloneToWorkspace ws r (cloneToWorkspace env ws r)], cloneToWorkspace env ws r)"

definition call_openDevelopmentWorkspace ::
  "collaborators \<Rightarrow> developmentWorkspaceId \<Rightarrow> unit promise" where
  "call_openDevelopmentWorkspace env ws =
     ([OpenDevelopmentWorkspace ws (openDevelopmentWorkspace env ws)],
      openDevelopmentWorkspace env ws)"

subsection \<open>The submission flow\<close>

definition createEmptyWorkpace ::
  "collaborators \<Rightarrow> workspaceSettings \<Rightarrow> developmentWorkspaceId promise" where
  "createEmptyWorkpace env settings =
     await (call_selectProject env) (\<lambda>project.
       case project of
         None \<Rightarrow> throw (CancellationError ''user'')
       | Some project \<Rightarrow>
           call_createDevelopmentWorkspace env
             \<lparr>req_ides = [\<lparr>ide_name = ''VSCode''\<rparr>],
              req_projectName = project_name project,
              req_organizationName = org_name (project_org project),
              req_repositories = None,
              req_settings = settings\<rparr>)"

definition createLinkedWorkspace ::
  "collaborators \<Rightarrow> workspaceSettings \<Rightarrow> cawsProject \<Rightarrow> cawsBranch
     \<Rightarrow> developmentWorkspaceId promise" where
  "createLinkedWorkspace env settings selectedProject selectedBranch =
     call_createDevelopmentWorkspace env
       \<lparr>req_ides = [\<lparr>ide_name = ''VSCode''\<rparr>],
        req_projectName = project_name selectedProject,
        req_organizationName = org_name (project_org selectedProject),
        req_repositories =
          Some [\<lparr>repositoryName = repo_name (branch_repo selectedBranch),
                 branchName = replace_first ''refs/heads/'' [] (branch_name selectedBranch)\<rparr>],
        req_settings = settings\<rparr>"

text \<open>\<open>localize(key, message)\<close> with no message bundle of another language loaded.\<close>

definition localize :: "string \<Rightarrow> string \<Rightarrow> string" where
  "localize key message = message"

text \<open>
  \<open>getProject(...).catch(err => ...)\<close>: a rejection whose \<open>statusCode\<close> is 404 becomes
  \<open>undefined\<close>, any other is thrown again; \<open>existingProject ?? createProject(...)\<close> calls
  \<open>createProject\<close> only when there is no existing project.
\<close>

definition getUnlinkedProject :: "collaborators \<Rightarrow> string \<Rightarrow> string \<Rightarrow> cawsProject promise" where
  "getUnlinkedProject env organizationName repoName =
     await
       (case call_getProject env \<lparr>gp_name = repoName, gp_organizationName = organizationName\<rparr> of
          (tr, Inr project) \<Rightarrow> (tr, Inr (Some project))
        | (tr, Inl err) \<Rightarrow>
            (case err of
               CollaboratorError (Some statusCode) _ \<Rightarrow>
                 if statusCode = 404 then (tr, Inr None) else (tr, Inl err)
             | _ \<Rightarrow> (tr, Inl err)))
       (\<lambda>existingProject.
          case existingProject of
            Some project \<Rightarrow> resolve project
          | None \<Rightarrow>
              call_createProject env
                \<lparr>cp_name = repoName,
                 cp_organizationName = organizationName,
                 cp_displayName = repoName,
                 cp_description =
                   localize ''aws.caws.createProject.description''
                     ''Created by AWS Toolkit for Workspaces''\<rparr>)"

definition withScheme :: "string \<Rightarrow> string" where
  "withScheme repositoryUrl =
     (if isSchemeless repositoryUrl then ''ssh://'' @ repositoryUrl else repositoryUrl)"

text \<open>\<open>repoUri.path.split('/').pop()?.replace(/\.git$/, '')\<close>\<close>

definition repoNameOf :: "uri \<Rightarrow> string option" where
  "repoNameOf repoUri =
     map_option replace_git_suffix (pop (split_char CHR ''/'' (uri_path repoUri)))"

text \<open>\<open>!repoName\<close> holds of \<open>undefined\<close> and of the empty string.\<close>

definition cloneRepository ::
  "collaborators \<Rightarrow> workspaceSettings \<Rightarrow> string \<Rightarrow> developmentWorkspaceId promise" where
  "cloneRepository env settings repositoryUrl =
     (case uri_parse_strict (decodeHexRuns env) (withScheme repositoryUrl) of
        Inl e \<Rightarrow> throw (UriError e)
      | Inr repoUri \<Rightarrow>
          (case repoNameOf repoUri of
             None \<Rightarrow> throw (TypeError ''No repository name found'')
           | Some repoName \<Rightarrow>
               if repoName = [] then throw (TypeError ''No repository name found'')
               else
                 await (call_selectOrg env) (\<lambda>org.
                   case org of
                     None \<Rightarrow> throw (CancellationError ''user'')
                   | Some org \<Rightarrow>
                       await (getUnlinkedProject env (org_name org) repoName)
                         (\<lambda>existingProject.
                       await (call_createDevelopmentWorkspace env
                                \<lparr>req_ides = [\<lparr>ide_name = ''VSCode''\<rparr>],
                                 req_projectName = project_name existingProject,
                                 req_organizationName = org_name (project_org existingProject),
                                 req_repositories = None,
                                 req_settings = settings\<rparr>)
                         (\<lambda>workspace.
                       await (call_cloneToWorkspace env workspace
                                \<lparr>rr_name = repoName, rr_location = repoUri\<rparr>)
                         (\<lambda>_. resolve workspace))))))"

definition submit :: "collaborators \<Rightarrow> workspaceSettings \<Rightarrow> sourceResponse \<Rightarrow> unit promise" where
  "submit env settings source =
     await (case source of
              Empty \<Rightarrow> createEmptyWorkpace env settings
            | Linked selectedProject selectedBranch \<Rightarrow>
                createLinkedWorkspace env settings selectedProject selectedBranch
            | Clone repositoryUrl \<Rightarrow> cloneRepository env settings repositoryUrl)
       (\<lambda>workspace. call_openDevelopmentWorkspace env workspace)"

subsection \<open>Reading a trace of the wizard\<close>

fun isProvisioning :: "wizardEvent \<Rightarrow> bool" where
  "isProvisioning (Client_createDevelopmentWorkspace _ _) = True"
| "isProvisioning _ = False"

fun isSelection :: "wizardEvent \<Rightarrow> bool" where
  "isSelection (SelectCawsResource_project _) = True"
| "isSelection (SelectCawsResource_org _) = True"
| "isSelection _ = False"

text \<open>A selection prompt that did not give a resource: dismissed by the user, or failed.\<close>

fun isUnansweredSelection :: "wizardEvent \<Rightarrow> bool" where
  "isUnansweredSelection (SelectCawsResource_project r) =
     (case r of Inr (Some _) \<Rightarrow> False | _ \<Rightarrow> True)"
| "isUnansweredSelection (SelectCawsResource_org r) =
     (case r of Inr (Some _) \<Rightarrow> False | _ \<Rightarrow> True)"
| "isUnansweredSelection _ = False"

fun isClone :: "wizardEvent \<Rightarrow> bool" where
  "isClone (CloneToWorkspace _ _ _) = True"
| "isClone _ = False"

fun isProjectCreation :: "wizardEvent \<Rightarrow> bool" where
  "isProjectCreation (Client_createProject _ _) = True"
| "isProjectCreation _ = False"

text \<open>The requests of the provisioning calls of a trace, in order.\<close>

fun provisioningRequests :: "wizardEvent list \<Rightarrow> createWorkspaceRequest list" where
  "provisioningRequests [] = []"
| "provisioningRequests (Client_createDevelopmentWorkspace req _ # tr) =
     req # provisioningRequests tr"
| "provisioningRequests (_ # tr) = provisioningRequests tr"

text \<open>
  \<open>noneAfter P Q tr\<close>: no event satisfying \<open>P\<close> comes later in \<open>tr\<close> than an event
  satisfying \<open>Q\<close>.
\<close>

fun noneAfter :: "('a \<Rightarrow> bool) \<Rightarrow> ('a \<Rightarrow> bool) \<Rightarrow> 'a list \<Rightarrow> bool" where
  "noneAfter P Q [] = True"
| "noneAfter P Q (e # tr) = ((\<not> Q e \<or> \<not> list_ex P tr) \<and> noneAfter P Q tr)"

text \<open>
  \<open>cloneFollowsProvisioning tr\<close>: every clone operation of \<open>tr\<close> is on a workspace that an
  earlier provisioning call of \<open>tr\<close> has returned. \<open>provisioned\<close> collects the workspaces
  returned so far.
\<close>

fun cloneFollows :: "developmentWorkspaceId list \<Rightarrow> wizardEvent list \<Rightarrow> bool" where
  "cloneFollows provisioned [] = True"
| "cloneFollows provisioned (Client_createDevelopmentWorkspace _ (Inr ws) # tr) =
     cloneFollows (ws # provisioned) tr"
| "cloneFollows provisioned (CloneToWorkspace ws _ _ # tr) =
     (ws \<in> set provisioned \<and> cloneFollows provisioned tr)"
| "cloneFollows provisioned (_ # tr) = cloneFollows provisioned tr"

definition cloneFollowsProvisioning :: "wizardEvent list \<Rightarrow> bool" where
  "cloneFollowsProvisioning tr = cloneFollows [] tr"

section \<open>The wizard panel singleton (\<open>showCreateWorkspace\<close>)\<close>

text \<open>
  The module keeps two variables, \<open>activePanel\<close> and \<open>subscriptions\<close>, both \<open>undefined\<close>
  at first. A panel instance is named by its number in the order of construction; a
  disposable returned by \<open>webview.onDidDispose\<close> is named by the panel whose webview it
  listens to.

  Modelled from the spec: the panel class (\<open>VueWebview.compilePanel\<close>) is not among
  the source files.
  Of it the model keeps what the spec says of the singleton: \<open>new Panel\<close> makes one more
  panel instance, \<open>show\<close> brings the panel it is called on to the front and returns its
  webview, and the disposal of a webview ends its panel and runs the listeners registered
  on it. \<open>panelCount\<close> counts the instances constructed, \<open>openPanels\<close> lists the
  instances constructed and not disposed, \<open>shown\<close> lists the calls of \<open>show\<close> by panel,
  \<open>disposedSubscriptions\<close> the disposables disposed so far.
\<close>

record panelState =
  activePanel :: "nat option"
  subscriptions :: "nat list option"
  panelCount :: nat
  openPanels :: "nat list"
  shown :: "nat list"
  disposedSubscriptions :: "nat list"

definition initialPanelState :: panelState where
  "initialPanelState =
     \<lparr>activePanel = None, subscriptions = None, panelCount = 0, openPanels = [],
      shown = [], disposedSubscriptions = []\<rparr>"

text \<open>\<open>activePanel ??= new Panel(ctx, client)\<close>\<close>

definition ensureActivePanel :: "panelState \<Rightarrow> nat \<times> panelState" where
  "ensureActivePanel s =
     (case activePanel s of
        Some p \<Rightarrow> (p, s)
      | None \<Rightarrow>
          (panelCount s,
           s\<lparr>activePanel := Some (panelCount s),
             panelCount := Suc (panelCount s),
             openPanels := openPanels s @ [panelCount s]\<rparr>))"

definition showCreateWorkspace :: "panelState \<Rightarrow> panelState" where
  "showCreateWorkspace s =
     (case ensureActivePanel s of
        (p, s1) \<Rightarrow>
          (let s2 = s1\<lparr>shown := shown s1 @ [p]\<rparr>
           in case subscriptions s2 of
                None \<Rightarrow> s2\<lparr>subscriptions := Some [p]\<rparr>
              | Some _ \<Rightarrow> s2))"

text \<open>The listener given to \<open>webview.onDidDispose\<close>.\<close>

definition onDidDispose_listener :: "panelState \<Rightarrow> panelState" where
  "onDidDispose_listener s =
     s\<lparr>disposedSubscriptions :=
         disposedSubscriptions s @ (case subscriptions s of None \<Rightarrow> [] | Some ds \<Rightarrow> ds),
       activePanel := None,
       subscriptions := None\<rparr>"

text \<open>
  The webview of panel \<open>p\<close> is disposed (the user closes it, or \<open>close()\<close> is called): the
  panel is gone, and the listener runs if it is registered on that webview.
\<close>

definition disposeWebview :: "nat \<Rightarrow> panelState \<Rightarrow> panelState" where
  "disposeWebview p s =
     (if p \<notin> set (openPanels s) then s
      else
        (let s1 = s\<lparr>openPanels := removeAll p (openPanels s)\<rparr>
         in if p \<in> set (case subscriptions s1 of None \<Rightarrow> [] | Some ds \<Rightarrow> ds)
            then onDidDispose_listener s1
            else s1))"

datatype panelOp = RequestPanel | DisposePanel nat

fun runPanelOp :: "panelState \<Rightarrow> panelOp \<Rightarrow> panelState" where
  "runPanelOp s RequestPanel = showCreateWorkspace s"
| "runPanelOp s (DisposePanel p) = disposeWebview p s"

definition runPanelOps :: "panelOp list \<Rightarrow> panelState" where
  "runPanelOps ops = foldl runPanelOp initialPanelState ops"

section \<open>Predicates on handler traces used by the properties\<close>

text \<open>
  A call that sets the loading state of a tab in the store, or the busy status of a tab
  in the registry.
\<close>

fun setsLoadingOrBusy :: "handlerEvent \<Rightarrow> bool" where
  "setsLoadingOrBusy (MynahUI_updateStore _ (LoadingState loadingChat _)) = loadingChat"
| "setsLoadingOrBusy (TabsStorage_updateTabStatus _ st) = (st = ''busy'')"
| "setsLoadingOrBusy _ = False"

fun isTabOpenedNotice :: "handlerEvent \<Rightarrow> bool" where
  "isTabOpenedNotice (Connector_onKnownTabOpen _) = True"
| "isTabOpenedNotice _ = False"

section \<open>Example collaborators\<close>

text \<open>
  A directory of projects for the examples: the picker offers the organization \<open>acme\<close>
  and its project \<open>shop\<close>, the lookup returns \<open>existing\<close> when there is one and is rejected
  with \<open>status\<close> otherwise, and every other call succeeds.
\<close>

definition projectDirectory :: "cawsProject option \<Rightarrow> nat \<Rightarrow> collaborators" where
  "projectDirectory existing status =
     \<lparr>selectCawsResource_project =
        Inr (Some \<lparr>project_name = ''shop'', project_org = \<lparr>org_name = ''acme''\<rparr>\<rparr>),
      selectCawsResource_org = Inr (Some \<lparr>org_name = ''acme''\<rparr>),
      client_getProject =
        (\<lambda>req. case existing of
                 Some p \<Rightarrow> Inr p
               | None \<Rightarrow> Inl (CollaboratorError (Some status) ''lookup failed'')),
      client_createProject =
        (\<lambda>req. Inr \<lparr>project_name = cp_name req,
                      project_org = \<lparr>org_name = cp_organizationName req\<rparr>\<rparr>),
      client_createDevelopmentWorkspace =
        (\<lambda>req. Inr \<lparr>ws_id = ''ws-1'', ws_org = \<lparr>org_name = req_organizationName req\<rparr>,
                      ws_project = \<lparr>project_name = req_projectName req,
                                     project_org = \<lparr>org_name = req_organizationName req\<rparr>\<rparr>\<rparr>),
      cloneToWorkspace = (\<lambda>ws r. Inr ()),
      openDevelopmentWorkspace = (\<lambda>ws. Inr ()),
      decodeHexRuns = (\<lambda>s. s)\<rparr>"

section \<open>Predicates on wizard traces used by the properties\<close>

fun returnsWorkspace :: "developmentWorkspaceId \<Rightarrow> wizardEvent \<Rightarrow> bool" where
  "returnsWorkspace ws (Client_createDevelopmentWorkspace _ r) = (r = Inr ws)"
| "returnsWorkspace ws _ = False"

fun clonesInto :: "developmentWorkspaceId \<Rightarrow> wizardEvent \<Rightarrow> bool" where
  "clonesInto ws (CloneToWorkspace ws' _ _) = (ws' = ws)"
| "clonesInto ws _ = False"

section \<open>The invariant of the panel singleton\<close>

text \<open>
  The panel referred to by \<open>activePanel\<close> is the only open one, the subscriptions are the
  one listener on its webview, and both variables are set or unset together.
\<close>

definition panelInv :: "panelState \<Rightarrow> bool" where
  "panelInv s \<longleftrightarrow>
     (case activePanel s of
        None \<Rightarrow> openPanels s = [] \<and> subscriptions s = None
      | Some p \<Rightarrow> openPanels s = [p] \<and> subscriptions s = Some [p] \<and> p < panelCount s)"

section \<open>Further readings of a wizard trace\<close>

text \<open>The requests of the project lookups of a trace, in order.\<close>

fun lookupRequests :: "wizardEvent list \<Rightarrow> getProjectRequest list" where
  "lookupRequests [] = []"
| "lookupRequests (Client_getProject req _ # tr) = req # lookupRequests tr"
| "lookupRequests (_ # tr) = lookupRequests tr"

text \<open>The repositories handed to the clone operations of a trace, in order.\<close>

fun cloneTargets :: "wizardEvent list \<Rightarrow> repoRef list" where
  "cloneTargets [] = []"
| "cloneTargets (CloneToWorkspace _ r _ # tr) = r # cloneTargets tr"
| "cloneTargets (_ # tr) = cloneTargets tr"

text \<open>
  Following the words of the specification, not the source: a branch name
  \<open>with the refs/heads/ prefix stripped\<close> is the name without that prefix when it starts
  with it, and the name itself otherwise. The source does not compute this function (it
  calls \<open>replace\<close>, modelled by \<open>replace_first\<close>); it is here to be compared with it.
\<close>

definition stripPrefix_spec :: "string \<Rightarrow> string \<Rightarrow> string" where
  "stripPrefix_spec pre s = (if prefix pre s then drop (length pre) s else s)"

section \<open>Properties of the follow-up handler\<close>

subsection \<open>Order in a trace\<close>

text \<open>\<open>noneAfter\<close> in terms of positions.\<close>

lemma noneAfter_positions:
  "noneAfter P Q tr \<longleftrightarrow> (\<forall>i j. i < j \<and> j < length tr \<and> Q (tr ! i) \<longrightarrow> \<not> P (tr ! j))"
proof (induction tr)
  case Nil
  show ?case by simp
next
  case (Cons e tr)
  have later: "list_ex P tr \<longleftrightarrow> (\<exists>j. j < length tr \<and> P (tr ! j))"
    unfolding list_ex_iff by (metis in_set_conv_nth)
  show ?case
  proof
    assume lhs: "noneAfter P Q (e # tr)"
    then have "noneAfter P Q tr" by simp
    then have tail: "\<forall>i j. i < j \<and> j < length tr \<and> Q (tr ! i) \<longrightarrow> \<not> P (tr ! j)"
      using Cons.IH by blast
    show "\<forall>i j. i < j \<and> j < length (e # tr) \<and> Q ((e # tr) ! i) \<longrightarrow> \<not> P ((e # tr) ! j)"
    proof (intro allI impI)
      fix i j
      assume h: "i < j \<and> j < length (e # tr) \<and> Q ((e # tr) ! i)"
      then obtain j' where j': "j = Suc j'" "j' < length tr"
        by (cases j) auto
      show "\<not> P ((e # tr) ! j)"
      proof (cases i)
        case 0
        with h lhs have "\<not> list_ex P tr" by simp
        with j' later show ?thesis by auto
      next
        case (Suc i')
        with h j' tail show ?thesis by auto
      qed
    qed
  next
    assume rhs: "\<forall>i j. i < j \<and> j < length (e # tr) \<and> Q ((e # tr) ! i) \<longrightarrow> \<not> P ((e # tr) ! j)"
    have head: "\<not> Q e \<or> \<not> list_ex P tr"
    proof (cases "Q e")
      case True
      have "\<not> P (tr ! j)" if "j < length tr" for j
        using rhs [rule_format, of 0 "Suc j"] that True by simp
      with later show ?thesis by auto
    next
      case False
      then show ?thesis by simp
    qed
    have "\<not> P (tr ! j)" if "i < j" "j < length tr" "Q (tr ! i)" for i j
      using rhs [rule_format, of "Suc i" "Suc j"] that by simp
    then have "noneAfter P Q tr"
      using Cons.IH by blast
    with head show "noneAfter P Q (e # tr)" by simp
  qed
qed

subsection \<open>Authentication follow-ups\<close>

text \<open>
  Claim C4. For every follow-up action whose kind is \<open>full-auth\<close> or \<open>re-auth\<close>, the
  dispatch makes exactly one collaborator call, the forwarding of the tab identifier and
  the kind to the authentication entry of the connector. Whatever the prompt, no chat item
  is appended, neither the store nor the tab registry is touched, and the action is not
  forwarded to the conversation backend.
\<close>

theorem auth_followUp_forwards_only_to_auth:
  assumes "fu_type followUp = Some kind"
    and "kind = ''full-auth'' \<or> kind = ''re-auth''"
  shows "onFollowUpClicked tabID messageId followUp = [Connector_onAuthFollowUpClicked tabID kind]
    \<and> \<not> list_ex isChatItemAppend (onFollowUpClicked tabID messageId followUp)
    \<and> \<not> list_ex isStoreOrStatusUpdate (onFollowUpClicked tabID messageId followUp)
    \<and> Connector_onFollowUpClicked tabID messageId followUp
         \<notin> set (onFollowUpClicked tabID messageId followUp)"
proof -
  have "onFollowUpClicked tabID messageId followUp = [Connector_onAuthFollowUpClicked tabID kind]"
    using assms by (auto simp: onFollowUpClicked_def Let_def)
  then show ?thesis by simp
qed

theorem auth_followUp_forwards_only_to_auth_witness:
  "onFollowUpClicked ''tab-1'' ''msg-1''
     \<lparr>fu_type = Some ''re-auth'', fu_prompt = Some ''hello'', fu_pillText = ''Sign in''\<rparr>
   = [Connector_onAuthFollowUpClicked ''tab-1'' ''re-auth'']"
  using auth_followUp_forwards_only_to_auth
    [of "\<lparr>fu_type = Some ''re-auth'', fu_prompt = Some ''hello'', fu_pillText = ''Sign in''\<rparr>"
        "''re-auth''" "''tab-1''" "''msg-1''"]
  by simp

subsection \<open>Prompt follow-ups\<close>

text \<open>
  Claim C3, as stated: for a follow-up whose kind is unset and whose prompt is present, the
  dispatch appends the two chat items and sets the loading and busy state, in that order,
  before forwarding. Read as a sequence, this puts every append of a chat item before the
  update that sets the loading state. The handler sets the loading state first: at the
  follow-up below, a chat item is appended after a loading or busy update.
\<close>

theorem prompt_followUp_order_counterexample:
  "\<not> noneAfter isChatItemAppend setsLoadingOrBusy
       (onFollowUpClicked ''tab-1'' ''msg-1''
          \<lparr>fu_type = None, fu_prompt = Some ''hello'', fu_pillText = ''Ask''\<rparr>)"
  by (simp add: onFollowUpClicked_def)

text \<open>
  Claim C3, amended. For every follow-up action whose kind is not an authentication kind
  (unset included) and whose prompt is present, the dispatch makes these calls and no
  other, in this order: it sets the loading state of the tab in the store, appends the
  prompt item carrying the prompt text, appends the empty placeholder item, marks the tab
  busy in the registry, resets the timer of the tab, and forwards the original tab
  identifier, message identifier and action to the conversation backend. So exactly two
  chat items are appended, between the loading update and the busy update, and all of
  this precedes the forwarding. When the prompt is absent the forwarding is the only call:
  it happens whether or not the prompt branch ran.
\<close>

theorem prompt_followUp_trace:
  assumes "fu_type followUp \<noteq> Some ''full-auth''"
    and "fu_type followUp \<noteq> Some ''re-auth''"
  shows "(case fu_prompt followUp of
            Some prompt \<Rightarrow>
              onFollowUpClicked tabID messageId followUp =
                [MynahUI_updateStore tabID (LoadingState True True),
                 MynahUI_addChatItem tabID \<lparr>ci_type = PROMPT, ci_body = prompt\<rparr>,
                 MynahUI_addChatItem tabID \<lparr>ci_type = ANSWER_STREAM, ci_body = []\<rparr>,
                 TabsStorage_updateTabStatus tabID ''busy'',
                 TabsStorage_resetTabTimer tabID,
                 Connector_onFollowUpClicked tabID messageId followUp]
              \<and> filter isChatItemAppend (onFollowUpClicked tabID messageId followUp) =
                [MynahUI_addChatItem tabID \<lparr>ci_type = PROMPT, ci_body = prompt\<rparr>,
                 MynahUI_addChatItem tabID \<lparr>ci_type = ANSWER_STREAM, ci_body = []\<rparr>]
          | None \<Rightarrow>
              onFollowUpClicked tabID messageId followUp =
                [Connector_onFollowUpClicked tabID messageId followUp])
    \<and> last (onFollowUpClicked tabID messageId followUp) =
        Connector_onFollowUpClicked tabID messageId followUp
    \<and> noneAfter (\<lambda>e. \<not> isBackendCall e) isBackendCall
        (onFollowUpClicked tabID messageId followUp)"
proof (cases "fu_type followUp")
  case None
  then show ?thesis
    by (cases "fu_prompt followUp") (simp_all add: onFollowUpClicked_def)
next
  case (Some t)
  with assms have "t \<noteq> ''full-auth''" "t \<noteq> ''re-auth''"
    by simp_all
  with Some show ?thesis
    by (cases "fu_prompt followUp") (simp_all add: onFollowUpClicked_def)
qed

theorem prompt_followUp_trace_witness:
  "onFollowUpClicked ''tab-1'' ''msg-1''
     \<lparr>fu_type = None, fu_prompt = Some ''hello'', fu_pillText = ''Ask''\<rparr> =
     [MynahUI_updateStore ''tab-1'' (LoadingState True True),
      MynahUI_addChatItem ''tab-1'' \<lparr>ci_type = PROMPT, ci_body = ''hello''\<rparr>,
      MynahUI_addChatItem ''tab-1'' \<lparr>ci_type = ANSWER_STREAM, ci_body = []\<rparr>,
      TabsStorage_updateTabStatus ''tab-1'' ''busy'',
      TabsStorage_resetTabTimer ''tab-1'',
      Connector_onFollowUpClicked ''tab-1'' ''msg-1''
        \<lparr>fu_type = None, fu_prompt = Some ''hello'', fu_pillText = ''Ask''\<rparr>]
   \<and> onFollowUpClicked ''tab-1'' ''msg-2''
       \<lparr>fu_type = Some ''help'', fu_prompt = None, fu_pillText = ''Help''\<rparr> =
     [Connector_onFollowUpClicked ''tab-1'' ''msg-2''
        \<lparr>fu_type = Some ''help'', fu_prompt = None, fu_pillText = ''Help''\<rparr>]"
  using prompt_followUp_trace
      [of "\<lparr>fu_type = None, fu_prompt = Some ''hello'', fu_pillText = ''Ask''\<rparr>"
          "''tab-1''" "''msg-1''"]
    prompt_followUp_trace
      [of "\<lparr>fu_type = Some ''help'', fu_prompt = None, fu_pillText = ''Help''\<rparr>"
          "''tab-1''" "''msg-2''"]
  by simp

subsection \<open>The welcome follow-up \<open>assign-code-task\<close>\<close>

text \<open>
  Claim C7. When the chat surface answers the request for a new tab with an identifier
  (different from the originating tab), the handler makes these calls and no other: the
  store request, the registration of the new tab, the retagging of the originating tab
  from \<open>unknown\<close> to \<open>cwc\<close> and its notice to the backend, the retagging of the new tab
  from \<open>unknown\<close> to \<open>wb\<close> and its notice, and the notice that the new tab is open. There
  is exactly one tab-opened notice, it is for the new tab, and none is for the originating
  tab. In a registry where the originating tab has type \<open>unknown\<close> and the new tab is
  absent or has type \<open>unknown\<close>, the calls leave the new tab registered with type \<open>wb\<close>
  and the originating tab with type \<open>cwc\<close>.
\<close>

theorem assign_code_task_success:
  assumes "updateStore_returns props []
             (GetTabData (isWeaverbirdEnabled props) (isGumbyEnabled props)
                ''wb'' True ''Q - Dev'' ''/dev'') = Some newTabId"
    and "newTabId \<noteq> tabID"
    and "tabTypeIn reg tabID = Some ''unknown''"
    and "tabTypeIn reg newTabId = None \<or> tabTypeIn reg newTabId = Some ''unknown''"
  shows "onWelcomeFollowUpClicked props tabID ''assign-code-task'' =
      [MynahUI_updateStore []
         (GetTabData (isWeaverbirdEnabled props) (isGumbyEnabled props)
            ''wb'' True ''Q - Dev'' ''/dev''),
       TabsStorage_addTab
         \<lparr>tab_id = newTabId, tab_status = ''busy'', tab_type = ''unknown'',
          tab_isSelected = True, tab_openInteractionType = ''click''\<rparr>,
       TabsStorage_updateTabTypeFromUnknown tabID ''cwc'',
       Connector_onUpdateTabType tabID,
       TabsStorage_updateTabTypeFromUnknown newTabId ''wb'',
       Connector_onUpdateTabType newTabId,
       Connector_onKnownTabOpen newTabId]
    \<and> filter isTabOpenedNotice (onWelcomeFollowUpClicked props tabID ''assign-code-task'') =
        [Connector_onKnownTabOpen newTabId]
    \<and> count_list (onWelcomeFollowUpClicked props tabID ''assign-code-task'')
        (Connector_onKnownTabOpen tabID) = 0
    \<and> tabTypeIn
        (tabsStorage_after reg (onWelcomeFollowUpClicked props tabID ''assign-code-task''))
        newTabId = Some ''wb''
    \<and> tabTypeIn
        (tabsStorage_after reg (onWelcomeFollowUpClicked props tabID ''assign-code-task''))
        tabID = Some ''cwc''"
proof -
  let ?tr = "onWelcomeFollowUpClicked props tabID ''assign-code-task''"
  have tr: "?tr =
      [MynahUI_updateStore []
         (GetTabData (isWeaverbirdEnabled props) (isGumbyEnabled props)
            ''wb'' True ''Q - Dev'' ''/dev''),
       TabsStorage_addTab
         \<lparr>tab_id = newTabId, tab_status = ''busy'', tab_type = ''unknown'',
          tab_isSelected = True, tab_openInteractionType = ''click''\<rparr>,
       TabsStorage_updateTabTypeFromUnknown tabID ''cwc'',
       Connector_onUpdateTabType tabID,
       TabsStorage_updateTabTypeFromUnknown newTabId ''wb'',
       Connector_onUpdateTabType newTabId,
       Connector_onKnownTabOpen newTabId]"
    using assms(1) by (simp add: onWelcomeFollowUpClicked_def Let_def)
  obtain t where t: "reg tabID = Some t" "tab_type t = ''unknown''"
    using assms(3) by (auto simp: tabTypeIn_def)
  have new: "tabTypeIn (tabsStorage_after reg ?tr) newTabId = Some ''wb''"
    using assms(2,4) t
    by (auto simp: tr tabsStorage_after_def tabTypeIn_def split: option.splits)
  have orig: "tabTypeIn (tabsStorage_after reg ?tr) tabID = Some ''cwc''"
    using assms(2,4) t
    by (auto simp: tr tabsStorage_after_def tabTypeIn_def split: option.splits)
  have opened: "filter isTabOpenedNotice ?tr = [Connector_onKnownTabOpen newTabId]"
    by (simp add: tr)
  have none: "count_list ?tr (Connector_onKnownTabOpen tabID) = 0"
    using assms(2) by (simp add: tr)
  from tr opened none new orig show ?thesis by simp
qed

theorem assign_code_task_success_witness:
  "onWelcomeFollowUpClicked
     \<lparr>isWeaverbirdEnabled = True, isGumbyEnabled = False,
      updateStore_returns = (\<lambda>tabID data. Some ''tab-2''),
      noMoreTabsTooltip = ''No more tabs''\<rparr>
     ''tab-1'' ''assign-code-task'' =
     [MynahUI_updateStore [] (GetTabData True False ''wb'' True ''Q - Dev'' ''/dev''),
      TabsStorage_addTab
        \<lparr>tab_id = ''tab-2'', tab_status = ''busy'', tab_type = ''unknown'',
         tab_isSelected = True, tab_openInteractionType = ''click''\<rparr>,
      TabsStorage_updateTabTypeFromUnknown ''tab-1'' ''cwc'',
      Connector_onUpdateTabType ''tab-1'',
      TabsStorage_updateTabTypeFromUnknown ''tab-2'' ''wb'',
      Connector_onUpdateTabType ''tab-2'',
      Connector_onKnownTabOpen ''tab-2'']"
  using assign_code_task_success
    [of "\<lparr>isWeaverbirdEnabled = True, isGumbyEnabled = False,
          updateStore_returns = (\<lambda>tabID data. Some ''tab-2''),
          noMoreTabsTooltip = ''No more tabs''\<rparr>"
        "''tab-2''" "''tab-1''"
        "[''tab-1'' \<mapsto> \<lparr>tab_id = ''tab-1'', tab_status = ''free'', tab_type = ''unknown'',
                          tab_isSelected = True, tab_openInteractionType = ''click''\<rparr>]"]
  by (simp add: tabTypeIn_def)

text \<open>
  Claim C8. When the chat surface answers the request for a new tab with no identifier
  (no more tabs can be created), the handler makes two calls, the store request and one
  notification of type warning carrying the no-more-tabs text. It makes no call on the
  tab registry, so any registry is left as it was, and no call on the backend. The method
  has no path that throws: it returns after the notification.
\<close>

theorem assign_code_task_no_capacity:
  assumes "updateStore_returns props []
             (GetTabData (isWeaverbirdEnabled props) (isGumbyEnabled props)
                ''wb'' True ''Q - Dev'' ''/dev'') = None"
  shows "onWelcomeFollowUpClicked props tabID ''assign-code-task'' =
      [MynahUI_updateStore []
         (GetTabData (isWeaverbirdEnabled props) (isGumbyEnabled props)
            ''wb'' True ''Q - Dev'' ''/dev''),
       MynahUI_notify \<lparr>nt_content = noMoreTabsTooltip props, nt_type = WARNING\<rparr>]
    \<and> \<not> list_ex isTabsStorageCall (onWelcomeFollowUpClicked props tabID ''assign-code-task'')
    \<and> tabsStorage_after reg (onWelcomeFollowUpClicked props tabID ''assign-code-task'') = reg
    \<and> filter isNotify (onWelcomeFollowUpClicked props tabID ''assign-code-task'') =
        [MynahUI_notify \<lparr>nt_content = noMoreTabsTooltip props, nt_type = WARNING\<rparr>]
    \<and> \<not> list_ex isBackendCall (onWelcomeFollowUpClicked props tabID ''assign-code-task'')"
  using assms
  by (simp add: onWelcomeFollowUpClicked_def Let_def tabsStorage_after_def)

theorem assign_code_task_no_capacity_witness:
  "onWelcomeFollowUpClicked
     \<lparr>isWeaverbirdEnabled = True, isGumbyEnabled = False,
      updateStore_returns = (\<lambda>tabID data. None),
      noMoreTabsTooltip = ''No more tabs''\<rparr>
     ''tab-1'' ''assign-code-task'' =
     [MynahUI_updateStore [] (GetTabData True False ''wb'' True ''Q - Dev'' ''/dev''),
      MynahUI_notify \<lparr>nt_content = ''No more tabs'', nt_type = WARNING\<rparr>]"
  using assign_code_task_no_capacity
    [of "\<lparr>isWeaverbirdEnabled = True, isGumbyEnabled = False,
          updateStore_returns = (\<lambda>tabID data. None),
          noMoreTabsTooltip = ''No more tabs''\<rparr>" "''tab-1''" "Map.empty"]
  by simp

section \<open>Properties of the wizard\<close>

subsection \<open>String operations\<close>

lemma split_char_not_empty: "split_char sep s \<noteq> []"
  by (induction s) (auto split: list.splits)

lemma split_char_absent: "sep \<notin> set s \<Longrightarrow> split_char sep s = [s]"
  by (induction s) auto

lemma split_char_present:
  "sep \<in> set s \<Longrightarrow> \<exists>seg seg' segs. split_char sep s = seg # seg' # segs"
proof (induction s)
  case Nil
  then show ?case by simp
next
  case (Cons c s)
  show ?case
  proof (cases "c = sep")
    case True
    then show ?thesis
      using split_char_not_empty [of sep s] by (cases "split_char sep s") auto
  next
    case False
    with Cons.prems have "sep \<in> set s" by simp
    then obtain seg seg' segs where "split_char sep s = seg # seg' # segs"
      using Cons.IH by blast
    with False show ?thesis by simp
  qed
qed

text \<open>The last segment is what follows the last separator.\<close>

lemma last_split_char:
  "last (split_char sep s) = rev (takeWhile (\<lambda>c. c \<noteq> sep) (rev s))"
proof (induction s)
  case Nil
  show ?case by simp
next
  case (Cons c s)
  show ?case
  proof (cases "sep \<in> set s")
    case True
    then obtain seg seg' segs where sp: "split_char sep s = seg # seg' # segs"
      using split_char_present by blast
    from True have "sep \<in> set (rev s)" by simp
    then have "takeWhile (\<lambda>c. c \<noteq> sep) (rev s @ [c]) = takeWhile (\<lambda>c. c \<noteq> sep) (rev s)"
      by (rule takeWhile_append1) simp
    with Cons sp True show ?thesis by auto
  next
    case False
    then have sp: "split_char sep s = [s]"
      by (rule split_char_absent)
    from False have "\<forall>x\<in>set (rev s). x \<noteq> sep" by auto
    then have "takeWhile (\<lambda>c. c \<noteq> sep) (rev s @ [c]) =
        rev s @ takeWhile (\<lambda>c. c \<noteq> sep) [c]"
      by (simp add: takeWhile_append)
    with sp show ?thesis by simp
  qed
qed

lemma pop_split_char:
  "pop (split_char sep s) = Some (rev (takeWhile (\<lambda>c. c \<noteq> sep) (rev s)))"
  by (simp add: pop_def split_char_not_empty last_split_char)

lemma replace_git_suffix_append: "replace_git_suffix (s @ ''.git'') = s"
  by (simp add: replace_git_suffix_def suffix_def)

lemma replace_git_suffix_other: "\<not> suffix ''.git'' s \<Longrightarrow> replace_git_suffix s = s"
  by (simp add: replace_git_suffix_def)

lemma replace_first_prefix: "replace_first pat rep (pat @ rest) = rep @ rest"
proof (cases "pat @ rest")
  case Nil
  then show ?thesis by simp
next
  case (Cons c cs)
  have "prefix pat (c # cs)"
    using Cons by (metis prefixI)
  moreover have "drop (length pat) (c # cs) = rest"
    using Cons by (metis append_eq_conv_conj)
  ultimately show ?thesis
    using Cons by simp
qed

lemma replace_first_absent:
  "\<not> (\<exists>pre post. s = pre @ pat @ post) \<Longrightarrow> replace_first pat rep s = s"
proof (induction s)
  case Nil
  then show ?case by auto
next
  case (Cons c s)
  have "\<not> prefix pat (c # s)"
    using Cons.prems by (metis append_Nil prefix_def)
  moreover have "\<not> (\<exists>pre post. s = pre @ pat @ post)"
    using Cons.prems by (metis append_Cons)
  ultimately show ?case
    using Cons.IH by simp
qed

subsection \<open>Parsing of the repository URL\<close>

lemma uri_parse_ssh_example:
  "uri_parse_strict dec ''ssh://git@host.example:org/repo.git'' =
     Inr \<lparr>uri_scheme = ''ssh'', uri_authority = ''git@host.example:org'',
          uri_path = ''/repo.git'', uri_rest = []\<rparr>"
  by (simp add: uri_parse_strict_def uri_regexp_exec_def notIn_def percentDecode_def
      referenceResolution_def validateUri_strict_def schemePattern_def isWordChar_def Let_def)

lemma uri_parse_https_example:
  "uri_parse_strict dec ''https://host/org/weird-name'' =
     Inr \<lparr>uri_scheme = ''https'', uri_authority = ''host'',
          uri_path = ''/org/weird-name'', uri_rest = []\<rparr>"
  by (simp add: uri_parse_strict_def uri_regexp_exec_def notIn_def percentDecode_def
      referenceResolution_def validateUri_strict_def schemePattern_def isWordChar_def Let_def)

lemma uri_parse_root_example:
  "uri_parse_strict dec ''https://host/'' =
     Inr \<lparr>uri_scheme = ''https'', uri_authority = ''host'', uri_path = ''/'', uri_rest = []\<rparr>"
  by (simp add: uri_parse_strict_def uri_regexp_exec_def notIn_def percentDecode_def
      referenceResolution_def validateUri_strict_def schemePattern_def isWordChar_def Let_def)

lemma isSchemeless_example: "isSchemeless ''git@host.example:org/repo.git''"
  by (simp add: isSchemeless_def isWordChar_def)

lemma not_isSchemeless_https: "\<not> isSchemeless (''https://'' @ s)"
  by (simp add: isSchemeless_def isWordChar_def)

lemmas submission_defs =
  submit_def createEmptyWorkpace_def createLinkedWorkspace_def cloneRepository_def
  getUnlinkedProject_def call_selectProject_def call_selectOrg_def call_getProject_def
  call_createProject_def call_createDevelopmentWorkspace_def call_cloneToWorkspace_def
  call_openDevelopmentWorkspace_def await_def throw_def resolve_def

lemma withScheme_ssh_example:
  "withScheme ''git@host.example:org/repo.git'' = ''ssh://git@host.example:org/repo.git''"
  using isSchemeless_example by (simp add: withScheme_def)

lemma repoNameOf_ssh_example:
  "repoNameOf \<lparr>uri_scheme = ''ssh'', uri_authority = ''git@host.example:org'',
     uri_path = ''/repo.git'', uri_rest = []\<rparr> = Some ''repo''"
  by (simp add: repoNameOf_def pop_def replace_git_suffix_def suffix_to_prefix)

text \<open>A complete run of the clone variant.\<close>

lemma submit_clone_example:
  "submit (projectDirectory None 404)
     \<lparr>settings_alias = None, instanceType = ''dev.standard1.small'',
      inactivityTimeoutMinutes = 15, persistentStorage = 16\<rparr>
     (Clone ''git@host.example:org/repo.git'') =
   ([SelectCawsResource_org (Inr (Some \<lparr>org_name = ''acme''\<rparr>)),
     Client_getProject \<lparr>gp_name = ''repo'', gp_organizationName = ''acme''\<rparr>
       (Inl (CollaboratorError (Some 404) ''lookup failed'')),
     Client_createProject
       \<lparr>cp_name = ''repo'', cp_organizationName = ''acme'', cp_displayName = ''repo'',
        cp_description = ''Created by AWS Toolkit for Workspaces''\<rparr>
       (Inr \<lparr>project_name = ''repo'', project_org = \<lparr>org_name = ''acme''\<rparr>\<rparr>),
     Client_createDevelopmentWorkspace
       \<lparr>req_ides = [\<lparr>ide_name = ''VSCode''\<rparr>], req_projectName = ''repo'',
        req_organizationName = ''acme'', req_repositories = None,
        req_settings =
          \<lparr>settings_alias = None, instanceType = ''dev.standard1.small'',
           inactivityTimeoutMinutes = 15, persistentStorage = 16\<rparr>\<rparr>
       (Inr \<lparr>ws_id = ''ws-1'', ws_org = \<lparr>org_name = ''acme''\<rparr>,
             ws_project = \<lparr>project_name = ''repo'', project_org = \<lparr>org_name = ''acme''\<rparr>\<rparr>\<rparr>),
     CloneToWorkspace
       \<lparr>ws_id = ''ws-1'', ws_org = \<lparr>org_name = ''acme''\<rparr>,
        ws_project = \<lparr>project_name = ''repo'', project_org = \<lparr>org_name = ''acme''\<rparr>\<rparr>\<rparr>
       \<lparr>rr_name = ''repo'',
        rr_location =
          \<lparr>uri_scheme = ''ssh'', uri_authority = ''git@host.example:org'',
           uri_path = ''/repo.git'', uri_rest = []\<rparr>\<rparr>
       (Inr ()),
     OpenDevelopmentWorkspace
       \<lparr>ws_id = ''ws-1'', ws_org = \<lparr>org_name = ''acme''\<rparr>,
        ws_project = \<lparr>project_name = ''repo'', project_org = \<lparr>org_name = ''acme''\<rparr>\<rparr>\<rparr>
       (Inr ())],
    Inr ())"
  by (simp add: submission_defs projectDirectory_def localize_def withScheme_ssh_example
      uri_parse_ssh_example repoNameOf_ssh_example)

lemma withScheme_https_example:
  "withScheme ''https://host/org/weird-name'' = ''https://host/org/weird-name''"
  using not_isSchemeless_https [of "''host/org/weird-name''"] by (simp add: withScheme_def)

lemma repoNameOf_https_example:
  "repoNameOf \<lparr>uri_scheme = ''https'', uri_authority = ''host'',
     uri_path = ''/org/weird-name'', uri_rest = []\<rparr> = Some ''weird-name''"
  by (simp add: repoNameOf_def pop_def replace_git_suffix_def suffix_to_prefix)

text \<open>
  The clone variant at an input whose parsed URI gives a non-empty name, for any
  collaborators.
\<close>

lemma clone_named_first:
  assumes "uri_parse_strict (decodeHexRuns env) (withScheme url) = Inr repoUri"
    and "repoNameOf repoUri = Some repoName" and "repoName \<noteq> []"
  shows "fst (cloneRepository env settings url) \<noteq> []
    \<and> hd (fst (cloneRepository env settings url)) =
        SelectCawsResource_org (selectCawsResource_org env)"
  using assms
  by (auto simp: submission_defs
      split: sum.splits option.splits error.splits prod.splits if_splits)

lemma clone_named_lookup:
  assumes "uri_parse_strict (decodeHexRuns env) (withScheme url) = Inr repoUri"
    and "repoNameOf repoUri = Some repoName" and "repoName \<noteq> []"
    and "selectCawsResource_org env = Inr (Some org)"
  shows "lookupRequests (fst (cloneRepository env settings url)) =
      [\<lparr>gp_name = repoName, gp_organizationName = org_name org\<rparr>]"
  using assms
  by (auto simp: submission_defs
      split: sum.splits option.splits error.splits prod.splits if_splits)

lemma clone_named_targets:
  assumes "uri_parse_strict (decodeHexRuns env) (withScheme url) = Inr repoUri"
    and "repoNameOf repoUri = Some repoName" and "repoName \<noteq> []"
  shows "list_all (\<lambda>r. r = \<lparr>rr_name = repoName, rr_location = repoUri\<rparr>)
      (cloneTargets (fst (cloneRepository env settings url)))"
  using assms
  by (auto simp: submission_defs
      split: sum.splits option.splits error.splits prod.splits if_splits)

lemma clone_named_success:
  assumes "uri_parse_strict (decodeHexRuns env) (withScheme url) = Inr repoUri"
    and "repoNameOf repoUri = Some repoName" and "repoName \<noteq> []"
    and "snd (cloneRepository env settings url) = Inr ws"
  shows "cloneTargets (fst (cloneRepository env settings url)) =
      [\<lparr>rr_name = repoName, rr_location = repoUri\<rparr>]"
  using assms
  by (auto simp: submission_defs
      split: sum.splits option.splits error.splits prod.splits if_splits)

text \<open>
  The clone variant at the two inputs that give a name, for any collaborators: the first
  call is the selection of the organization; with an organization selected the one lookup
  asks for the derived name; every clone is handed the derived name and the parsed URI,
  and a run that succeeds has made exactly one clone.
\<close>

lemma cloneRepository_ssh_example:
  "fst (cloneRepository env settings ''git@host.example:org/repo.git'') \<noteq> []
   \<and> hd (fst (cloneRepository env settings ''git@host.example:org/repo.git'')) =
       SelectCawsResource_org (selectCawsResource_org env)
   \<and> (selectCawsResource_org env = Inr (Some org) \<longrightarrow>
        lookupRequests (fst (cloneRepository env settings ''git@host.example:org/repo.git'')) =
          [\<lparr>gp_name = ''repo'', gp_organizationName = org_name org\<rparr>])
   \<and> list_all
        (\<lambda>r. r = \<lparr>rr_name = ''repo'',
                  rr_location = \<lparr>uri_scheme = ''ssh'', uri_authority = ''git@host.example:org'',
                                  uri_path = ''/repo.git'', uri_rest = []\<rparr>\<rparr>)
        (cloneTargets (fst (cloneRepository env settings ''git@host.example:org/repo.git'')))
   \<and> (snd (cloneRepository env settings ''git@host.example:org/repo.git'') = Inr ws \<longrightarrow>
        cloneTargets (fst (cloneRepository env settings ''git@host.example:org/repo.git'')) =
          [\<lparr>rr_name = ''repo'',
            rr_location = \<lparr>uri_scheme = ''ssh'', uri_authority = ''git@host.example:org'',
                            uri_path = ''/repo.git'', uri_rest = []\<rparr>\<rparr>])"
proof -
  have p: "uri_parse_strict (decodeHexRuns env) (withScheme ''git@host.example:org/repo.git'') =
      Inr \<lparr>uri_scheme = ''ssh'', uri_authority = ''git@host.example:org'',
           uri_path = ''/repo.git'', uri_rest = []\<rparr>"
    by (simp add: withScheme_ssh_example uri_parse_ssh_example)
  have ne: "''repo'' \<noteq> []"
    by simp
  note n = repoNameOf_ssh_example
  show ?thesis
    using clone_named_first [OF p n ne, of settings]
      clone_named_lookup [OF p n ne, of org settings]
      clone_named_targets [OF p n ne, of settings]
      clone_named_success [OF p n ne, of settings ws]
    by blast
qed

lemma cloneRepository_https_example:
  "fst (cloneRepository env settings ''https://host/org/weird-name'') \<noteq> []
   \<and> hd (fst (cloneRepository env settings ''https://host/org/weird-name'')) =
       SelectCawsResource_org (selectCawsResource_org env)
   \<and> (selectCawsResource_org env = Inr (Some org) \<longrightarrow>
        lookupRequests (fst (cloneRepository env settings ''https://host/org/weird-name'')) =
          [\<lparr>gp_name = ''weird-name'', gp_organizationName = org_name org\<rparr>])
   \<and> list_all
        (\<lambda>r. r = \<lparr>rr_name = ''weird-name'',
                  rr_location = \<lparr>uri_scheme = ''https'', uri_authority = ''host'',
                                  uri_path = ''/org/weird-name'', uri_rest = []\<rparr>\<rparr>)
        (cloneTargets (fst (cloneRepository env settings ''https://host/org/weird-name'')))
   \<and> (snd (cloneRepository env settings ''https://host/org/weird-name'') = Inr ws \<longrightarrow>
        cloneTargets (fst (cloneRepository env settings ''https://host/org/weird-name'')) =
          [\<lparr>rr_name = ''weird-name'',
            rr_location = \<lparr>uri_scheme = ''https'', uri_authority = ''host'',
                            uri_path = ''/org/weird-name'', uri_rest = []\<rparr>\<rparr>])"
proof -
  have p: "uri_parse_strict (decodeHexRuns env) (withScheme ''https://host/org/weird-name'') =
      Inr \<lparr>uri_scheme = ''https'', uri_authority = ''host'',
           uri_path = ''/org/weird-name'', uri_rest = []\<rparr>"
    by (simp add: withScheme_https_example uri_parse_https_example)
  have ne: "''weird-name'' \<noteq> []"
    by simp
  note n = repoNameOf_https_example
  show ?thesis
    using clone_named_first [OF p n ne, of settings]
      clone_named_lookup [OF p n ne, of org settings]
      clone_named_targets [OF p n ne, of settings]
      clone_named_success [OF p n ne, of settings ws]
    by blast
qed

lemma cloneRepository_ssh_succeeds:
  "snd (cloneRepository (projectDirectory None 404)
          \<lparr>settings_alias = None, instanceType = ''dev.standard1.small'',
           inactivityTimeoutMinutes = 15, persistentStorage = 16\<rparr>
          ''git@host.example:org/repo.git'') =
     Inr \<lparr>ws_id = ''ws-1'', ws_org = \<lparr>org_name = ''acme''\<rparr>,
          ws_project = \<lparr>project_name = ''repo'', project_org = \<lparr>org_name = ''acme''\<rparr>\<rparr>\<rparr>"
  by (simp add: submission_defs projectDirectory_def localize_def withScheme_ssh_example
      uri_parse_ssh_example repoNameOf_ssh_example)

text \<open>
  Claim C1. In the clone variant, an input that starts with word characters followed by
  \<open>@\<close> is prefixed with \<open>ssh://\<close> before it is parsed, any other input is parsed as it
  is, and the derived name is the part of the parsed path after its last slash, without a
  trailing \<open>.git\<close>. The input \<open>git@host.example:org/repo.git\<close> is prefixed to
  \<open>ssh://git@host.example:org/repo.git\<close> and gives the name \<open>repo\<close>, the input
  \<open>https://host/org/weird-name\<close> gives \<open>weird-name\<close>: at both, whatever the
  collaborators answer, \<open>cloneRepository\<close> goes on to the selection of the organization,
  looks the project up under the derived name once an organization is selected, and hands
  the derived name with the parsed URI to every clone, exactly one on success; the run
  with the example collaborators is given call by call. The input \<open>https://host/\<close> gives
  the empty name: the submission then ends with the error \<open>No repository name found\<close>
  before any collaborator is called.
\<close>

theorem clone_url_parsing:
  "(isSchemeless url \<longrightarrow> withScheme url = ''ssh://'' @ url)
   \<and> (\<not> isSchemeless url \<longrightarrow> withScheme url = url)
   \<and> repoNameOf u =
       Some (replace_git_suffix (rev (takeWhile (\<lambda>c. c \<noteq> CHR ''/'') (rev (uri_path u)))))
   \<and> withScheme ''git@host.example:org/repo.git'' = ''ssh://git@host.example:org/repo.git''
   \<and> map_sum id repoNameOf
        (uri_parse_strict dec (withScheme ''git@host.example:org/repo.git'')) =
       Inr (Some ''repo'')
   \<and> map_sum id repoNameOf
        (uri_parse_strict dec (withScheme ''https://host/org/weird-name'')) =
       Inr (Some ''weird-name'')
   \<and> map_sum id repoNameOf (uri_parse_strict dec (withScheme ''https://host/'')) =
       Inr (Some [])
   \<and> cloneRepository env settings ''https://host/'' =
       ([], Inl (TypeError ''No repository name found''))
   \<and> submit env settings (Clone ''https://host/'') =
       ([], Inl (TypeError ''No repository name found''))
   \<and> fst (cloneRepository env settings ''git@host.example:org/repo.git'') \<noteq> []
   \<and> hd (fst (cloneRepository env settings ''git@host.example:org/repo.git'')) =
       SelectCawsResource_org (selectCawsResource_org env)
   \<and> (selectCawsResource_org env = Inr (Some org) \<longrightarrow>
        lookupRequests (fst (cloneRepository env settings ''git@host.example:org/repo.git'')) =
          [\<lparr>gp_name = ''repo'', gp_organizationName = org_name org\<rparr>])
   \<and> list_all
        (\<lambda>r. r = \<lparr>rr_name = ''repo'',
                  rr_location = \<lparr>uri_scheme = ''ssh'', uri_authority = ''git@host.example:org'',
                                  uri_path = ''/repo.git'', uri_rest = []\<rparr>\<rparr>)
        (cloneTargets (fst (cloneRepository env settings ''git@host.example:org/repo.git'')))
   \<and> (snd (cloneRepository env settings ''git@host.example:org/repo.git'') = Inr ws \<longrightarrow>
        cloneTargets (fst (cloneRepository env settings ''git@host.example:org/repo.git'')) =
          [\<lparr>rr_name = ''repo'',
            rr_location = \<lparr>uri_scheme = ''ssh'', uri_authority = ''git@host.example:org'',
                            uri_path = ''/repo.git'', uri_rest = []\<rparr>\<rparr>])
   \<and> fst (cloneRepository env settings ''https://host/org/weird-name'') \<noteq> []
   \<and> hd (fst (cloneRepository env settings ''https://host/org/weird-name'')) =
       SelectCawsResource_org (selectCawsResource_org env)
   \<and> (selectCawsResource_org env = Inr (Some org) \<longrightarrow>
        lookupRequests (fst (cloneRepository env settings ''https://host/org/weird-name'')) =
          [\<lparr>gp_name = ''weird-name'', gp_organizationName = org_name org\<rparr>])
   \<and> list_all
        (\<lambda>r. r = \<lparr>rr_name = ''weird-name'',
                  rr_location = \<lparr>uri_scheme = ''https'', uri_authority = ''host'',
                                  uri_path = ''/org/weird-name'', uri_rest = []\<rparr>\<rparr>)
        (cloneTargets (fst (cloneRepository env settings ''https://host/org/weird-name'')))
   \<and> (snd (cloneRepository env settings ''https://host/org/weird-name'') = Inr ws' \<longrightarrow>
        cloneTargets (fst (cloneRepository env settings ''https://host/org/weird-name'')) =
          [\<lparr>rr_name = ''weird-name'',
            rr_location = \<lparr>uri_scheme = ''https'', uri_authority = ''host'',
                            uri_path = ''/org/weird-name'', uri_rest = []\<rparr>\<rparr>])
   \<and> submit (projectDirectory None 404)
        \<lparr>settings_alias = None, instanceType = ''dev.standard1.small'',
         inactivityTimeoutMinutes = 15, persistentStorage = 16\<rparr>
        (Clone ''git@host.example:org/repo.git'') =
      ([SelectCawsResource_org (Inr (Some \<lparr>org_name = ''acme''\<rparr>)),
        Client_getProject \<lparr>gp_name = ''repo'', gp_organizationName = ''acme''\<rparr>
          (Inl (CollaboratorError (Some 404) ''lookup failed'')),
        Client_createProject
          \<lparr>cp_name = ''repo'', cp_organizationName = ''acme'', cp_displayName = ''repo'',
           cp_description = ''Created by AWS Toolkit for Workspaces''\<rparr>
          (Inr \<lparr>project_name = ''repo'', project_org = \<lparr>org_name = ''acme''\<rparr>\<rparr>),
        Client_createDevelopmentWorkspace
          \<lparr>req_ides = [\<lparr>ide_name = ''VSCode''\<rparr>], req_projectName = ''repo'',
           req_organizationName = ''acme'', req_repositories = None,
           req_settings =
             \<lparr>settings_alias = None, instanceType = ''dev.standard1.small'',
              inactivityTimeoutMinutes = 15, persistentStorage = 16\<rparr>\<rparr>
          (Inr \<lparr>ws_id = ''ws-1'', ws_org = \<lparr>org_name = ''acme''\<rparr>,
                ws_project = \<lparr>project_name = ''repo'', project_org = \<lparr>org_name = ''acme''\<rparr>\<rparr>\<rparr>),
        CloneToWorkspace
          \<lparr>ws_id = ''ws-1'', ws_org = \<lparr>org_name = ''acme''\<rparr>,
           ws_project = \<lparr>project_name = ''repo'', project_org = \<lparr>org_name = ''acme''\<rparr>\<rparr>\<rparr>
          \<lparr>rr_name = ''repo'',
           rr_location =
             \<lparr>uri_scheme = ''ssh'', uri_authority = ''git@host.example:org'',
              uri_path = ''/repo.git'', uri_rest = []\<rparr>\<rparr>
          (Inr ()),
        OpenDevelopmentWorkspace
          \<lparr>ws_id = ''ws-1'', ws_org = \<lparr>org_name = ''acme''\<rparr>,
           ws_project = \<lparr>project_name = ''repo'', project_org = \<lparr>org_name = ''acme''\<rparr>\<rparr>\<rparr>
          (Inr ())],
       Inr ())"
proof -
  have ssh: "withScheme ''git@host.example:org/repo.git'' = ''ssh://git@host.example:org/repo.git''"
    by (rule withScheme_ssh_example)
  have https1: "withScheme ''https://host/org/weird-name'' = ''https://host/org/weird-name''"
    by (rule withScheme_https_example)
  have https2: "withScheme ''https://host/'' = ''https://host/''"
    using not_isSchemeless_https [of "''host/''"] by (simp add: withScheme_def)
  have name: "repoNameOf v =
      Some (replace_git_suffix (rev (takeWhile (\<lambda>c. c \<noteq> CHR ''/'') (rev (uri_path v)))))" for v
    by (simp add: repoNameOf_def pop_split_char)
  have n1: "map_sum id repoNameOf
        (uri_parse_strict dec (withScheme ''git@host.example:org/repo.git'')) =
       Inr (Some ''repo'')"
    by (simp add: ssh uri_parse_ssh_example name replace_git_suffix_def suffix_to_prefix)
  have n2: "map_sum id repoNameOf
        (uri_parse_strict dec (withScheme ''https://host/org/weird-name'')) =
       Inr (Some ''weird-name'')"
    by (simp add: https1 uri_parse_https_example name replace_git_suffix_def suffix_to_prefix)
  have n3: "map_sum id repoNameOf (uri_parse_strict d (withScheme ''https://host/'')) =
       Inr (Some [])" for d
    by (simp add: https2 uri_parse_root_example name replace_git_suffix_def suffix_to_prefix)
  have c: "cloneRepository env settings ''https://host/'' =
       ([], Inl (TypeError ''No repository name found''))"
    by (simp add: cloneRepository_def https2 uri_parse_root_example name
        replace_git_suffix_def suffix_to_prefix throw_def)
  have s: "submit env settings (Clone ''https://host/'') =
       ([], Inl (TypeError ''No repository name found''))"
    by (simp add: submit_def c await_def)
  have general: "(isSchemeless url \<longrightarrow> withScheme url = ''ssh://'' @ url)
      \<and> (\<not> isSchemeless url \<longrightarrow> withScheme url = url)"
    by (simp add: withScheme_def)
  show ?thesis
    by (intro conjI)
      (use general ssh name n1 n2 n3 c s
        cloneRepository_ssh_example [of env settings org ws]
        cloneRepository_https_example [of env settings org ws']
        submit_clone_example in blast)+
qed

theorem clone_url_parsing_witness:
  "isSchemeless ''git@host.example:org/repo.git''
   \<and> withScheme ''git@host.example:org/repo.git'' = ''ssh://'' @ ''git@host.example:org/repo.git''
   \<and> \<not> isSchemeless ''https://host/org/weird-name''
   \<and> withScheme ''https://host/org/weird-name'' = ''https://host/org/weird-name''
   \<and> lookupRequests
        (fst (cloneRepository (projectDirectory None 404)
                \<lparr>settings_alias = None, instanceType = ''dev.standard1.small'',
                 inactivityTimeoutMinutes = 15, persistentStorage = 16\<rparr>
                ''git@host.example:org/repo.git'')) =
       [\<lparr>gp_name = ''repo'', gp_organizationName = ''acme''\<rparr>]
   \<and> cloneTargets
        (fst (cloneRepository (projectDirectory None 404)
                \<lparr>settings_alias = None, instanceType = ''dev.standard1.small'',
                 inactivityTimeoutMinutes = 15, persistentStorage = 16\<rparr>
                ''git@host.example:org/repo.git'')) =
       [\<lparr>rr_name = ''repo'',
         rr_location = \<lparr>uri_scheme = ''ssh'', uri_authority = ''git@host.example:org'',
                         uri_path = ''/repo.git'', uri_rest = []\<rparr>\<rparr>]"
proof -
  have org: "selectCawsResource_org (projectDirectory None 404) = Inr (Some \<lparr>org_name = ''acme''\<rparr>)"
    by (simp add: projectDirectory_def)
  show ?thesis
    using clone_url_parsing
        [of "''git@host.example:org/repo.git''" _ _ "projectDirectory None 404"
            "\<lparr>settings_alias = None, instanceType = ''dev.standard1.small'',
              inactivityTimeoutMinutes = 15, persistentStorage = 16\<rparr>"
            "\<lparr>org_name = ''acme''\<rparr>"
            "\<lparr>ws_id = ''ws-1'', ws_org = \<lparr>org_name = ''acme''\<rparr>,
              ws_project = \<lparr>project_name = ''repo'', project_org = \<lparr>org_name = ''acme''\<rparr>\<rparr>\<rparr>"]
      clone_url_parsing [of "''https://host/org/weird-name''"]
      isSchemeless_example not_isSchemeless_https [of "''host/org/weird-name''"]
      org cloneRepository_ssh_succeeds
    by simp
qed

subsection \<open>Project resolution\<close>

text \<open>
  Claim C2. In the project resolution of the clone variant, a lookup rejected with status
  404 is not an error: the project is then created, with a request whose name and display
  name are both the derived repository name, and the resolution settles as the creation
  does. A lookup that returns a project ends the resolution with that project and the
  creation is not called. A lookup rejected with anything else rejects the resolution
  with the same error, and the creation is not called.
\<close>

theorem project_resolution:
  "(client_getProject env \<lparr>gp_name = repoName, gp_organizationName = organizationName\<rparr>
      = Inl (CollaboratorError (Some 404) msg) \<longrightarrow>
      getUnlinkedProject env organizationName repoName =
        ([Client_getProject \<lparr>gp_name = repoName, gp_organizationName = organizationName\<rparr>
            (Inl (CollaboratorError (Some 404) msg)),
          Client_createProject
            \<lparr>cp_name = repoName, cp_organizationName = organizationName,
             cp_displayName = repoName,
             cp_description = ''Created by AWS Toolkit for Workspaces''\<rparr>
            (client_createProject env
               \<lparr>cp_name = repoName, cp_organizationName = organizationName,
                cp_displayName = repoName,
                cp_description = ''Created by AWS Toolkit for Workspaces''\<rparr>)],
         client_createProject env
           \<lparr>cp_name = repoName, cp_organizationName = organizationName,
            cp_displayName = repoName,
            cp_description = ''Created by AWS Toolkit for Workspaces''\<rparr>))
   \<and> (client_getProject env \<lparr>gp_name = repoName, gp_organizationName = organizationName\<rparr>
        = Inr project \<longrightarrow>
      getUnlinkedProject env organizationName repoName =
        ([Client_getProject \<lparr>gp_name = repoName, gp_organizationName = organizationName\<rparr>
            (Inr project)],
         Inr project)
      \<and> \<not> list_ex isProjectCreation (fst (getUnlinkedProject env organizationName repoName)))
   \<and> (client_getProject env \<lparr>gp_name = repoName, gp_organizationName = organizationName\<rparr>
        = Inl err \<and> (\<forall>m. err \<noteq> CollaboratorError (Some 404) m) \<longrightarrow>
      getUnlinkedProject env organizationName repoName =
        ([Client_getProject \<lparr>gp_name = repoName, gp_organizationName = organizationName\<rparr>
            (Inl err)],
         Inl err)
      \<and> \<not> list_ex isProjectCreation (fst (getUnlinkedProject env organizationName repoName)))"
  by (auto simp: getUnlinkedProject_def call_getProject_def call_createProject_def await_def
      resolve_def localize_def split: error.splits option.splits)

theorem project_resolution_witness:
  "getUnlinkedProject (projectDirectory None 404) ''acme'' ''repo'' =
     ([Client_getProject \<lparr>gp_name = ''repo'', gp_organizationName = ''acme''\<rparr>
         (Inl (CollaboratorError (Some 404) ''lookup failed'')),
       Client_createProject
         \<lparr>cp_name = ''repo'', cp_organizationName = ''acme'', cp_displayName = ''repo'',
          cp_description = ''Created by AWS Toolkit for Workspaces''\<rparr>
         (Inr \<lparr>project_name = ''repo'', project_org = \<lparr>org_name = ''acme''\<rparr>\<rparr>)],
      Inr \<lparr>project_name = ''repo'', project_org = \<lparr>org_name = ''acme''\<rparr>\<rparr>)
   \<and> getUnlinkedProject
        (projectDirectory (Some \<lparr>project_name = ''repo'', project_org = \<lparr>org_name = ''acme''\<rparr>\<rparr>) 0)
        ''acme'' ''repo'' =
     ([Client_getProject \<lparr>gp_name = ''repo'', gp_organizationName = ''acme''\<rparr>
         (Inr \<lparr>project_name = ''repo'', project_org = \<lparr>org_name = ''acme''\<rparr>\<rparr>)],
      Inr \<lparr>project_name = ''repo'', project_org = \<lparr>org_name = ''acme''\<rparr>\<rparr>)
   \<and> getUnlinkedProject (projectDirectory None 500) ''acme'' ''repo'' =
     ([Client_getProject \<lparr>gp_name = ''repo'', gp_organizationName = ''acme''\<rparr>
         (Inl (CollaboratorError (Some 500) ''lookup failed''))],
      Inl (CollaboratorError (Some 500) ''lookup failed''))"
  using project_resolution
      [of "projectDirectory None 404" "''repo''" "''acme''" "''lookup failed''"]
    project_resolution
      [of "projectDirectory (Some \<lparr>project_name = ''repo'', project_org = \<lparr>org_name = ''acme''\<rparr>\<rparr>) 0"
          "''repo''" "''acme''" _
          "\<lparr>project_name = ''repo'', project_org = \<lparr>org_name = ''acme''\<rparr>\<rparr>"]
    project_resolution
      [of "projectDirectory None 500" "''repo''" "''acme''" _ _
          "CollaboratorError (Some 500) ''lookup failed''"]
  by (simp add: projectDirectory_def)

subsection \<open>The linked variant\<close>

lemma replace_first_first_occurrence:
  assumes "pat \<noteq> []"
    and "list_all (\<lambda>k. \<not> prefix pat (drop k (pre @ pat @ post))) [0..<length pre]"
  shows "replace_first pat rep (pre @ pat @ post) = pre @ rep @ post"
  using assms(2)
proof (induction pre)
  case Nil
  show ?case
    using replace_first_prefix [of pat rep post] by simp
next
  case (Cons c pre)
  have all: "\<forall>k<Suc (length pre). \<not> prefix pat (drop k (c # pre @ pat @ post))"
    using Cons.prems by (auto simp: list_all_iff less_Suc_eq)
  have "\<not> prefix pat (c # pre @ pat @ post)"
    using all [rule_format, of 0] by simp
  moreover have "\<not> prefix pat (drop k (pre @ pat @ post))" if "k < length pre" for k
    using all [rule_format, of "Suc k"] that by simp
  then have "replace_first pat rep (pre @ pat @ post) = pre @ rep @ post"
    using Cons.IH by (simp add: list_all_iff)
  ultimately show ?case by simp
qed

lemma linked_request:
  "map req_repositories
     (provisioningRequests (fst (submit env settings (Linked selectedProject selectedBranch))))
   = [Some [\<lparr>repositoryName = repo_name (branch_repo selectedBranch),
             branchName = replace_first ''refs/heads/'' [] (branch_name selectedBranch)\<rparr>]]"
  by (cases "client_createDevelopmentWorkspace env
        \<lparr>req_ides = [\<lparr>ide_name = ''VSCode''\<rparr>],
         req_projectName = project_name selectedProject,
         req_organizationName = org_name (project_org selectedProject),
         req_repositories =
           Some [\<lparr>repositoryName = repo_name (branch_repo selectedBranch),
                  branchName = replace_first ''refs/heads/'' [] (branch_name selectedBranch)\<rparr>],
         req_settings = settings\<rparr>")
    (simp_all add: submit_def createLinkedWorkspace_def call_createDevelopmentWorkspace_def
      call_openDevelopmentWorkspace_def await_def)

text \<open>
  Claim C5, as stated: for every linked-source submission the branch name in the
  provisioning request is the selected name with the \<open>refs/heads/\<close> prefix stripped. The
  source calls \<open>replace('refs/heads/', '')\<close>, which removes the first occurrence wherever
  it is. A selected branch named \<open>feature/refs/heads/x\<close> has no such prefix, so stripping
  the prefix leaves the name as it is, but the request carries \<open>feature/x\<close>.
\<close>

theorem linked_branch_prefix_counterexample:
  "map req_repositories
     (provisioningRequests
        (fst (submit (projectDirectory None 404)
                \<lparr>settings_alias = None, instanceType = ''dev.standard1.small'',
                 inactivityTimeoutMinutes = 15, persistentStorage = 16\<rparr>
                (Linked \<lparr>project_name = ''shop'', project_org = \<lparr>org_name = ''acme''\<rparr>\<rparr>
                        \<lparr>branch_name = ''feature/refs/heads/x'',
                         branch_repo = \<lparr>repo_name = ''web''\<rparr>\<rparr>))))
   \<noteq> [Some [\<lparr>repositoryName = ''web'',
              branchName = stripPrefix_spec ''refs/heads/'' ''feature/refs/heads/x''\<rparr>]]"
  by (simp add: linked_request stripPrefix_spec_def)

text \<open>
  Claim C5, amended. Every linked-source submission makes one provisioning request, with
  one repository entry: the repository of the selected branch, and as branch name the name
  of the selected branch with its first occurrence of \<open>refs/heads/\<close> removed. For a name
  that starts with \<open>refs/heads/\<close> this is the name without that prefix, so a selected
  branch named \<open>refs/heads/main\<close> is requested as \<open>main\<close>; for a name that holds
  \<open>refs/heads/\<close> first after some other text, that text stays and the occurrence goes; a
  name that does not hold \<open>refs/heads/\<close> is requested as it is.
\<close>

theorem linked_branch_name_first_occurrence_removed:
  "(branch_name selectedBranch = ''refs/heads/'' @ shortName \<longrightarrow>
      map req_repositories
        (provisioningRequests (fst (submit env settings (Linked selectedProject selectedBranch))))
      = [Some [\<lparr>repositoryName = repo_name (branch_repo selectedBranch),
                branchName = shortName\<rparr>]])
   \<and> (branch_name selectedBranch = pre @ ''refs/heads/'' @ post
        \<and> list_all (\<lambda>k. \<not> prefix ''refs/heads/'' (drop k (branch_name selectedBranch)))
             [0..<length pre] \<longrightarrow>
      map req_repositories
        (provisioningRequests (fst (submit env settings (Linked selectedProject selectedBranch))))
      = [Some [\<lparr>repositoryName = repo_name (branch_repo selectedBranch),
                branchName = pre @ post\<rparr>]])
   \<and> (\<not> (\<exists>before after. branch_name selectedBranch = before @ ''refs/heads/'' @ after) \<longrightarrow>
      map req_repositories
        (provisioningRequests (fst (submit env settings (Linked selectedProject selectedBranch))))
      = [Some [\<lparr>repositoryName = repo_name (branch_repo selectedBranch),
                branchName = branch_name selectedBranch\<rparr>]])"
proof (intro conjI impI)
  assume "branch_name selectedBranch = ''refs/heads/'' @ shortName"
  then have "replace_first ''refs/heads/'' [] (branch_name selectedBranch) = shortName"
    using replace_first_prefix [of "''refs/heads/''" "[]" shortName] by simp
  then show "map req_repositories
        (provisioningRequests (fst (submit env settings (Linked selectedProject selectedBranch))))
      = [Some [\<lparr>repositoryName = repo_name (branch_repo selectedBranch),
                branchName = shortName\<rparr>]]"
    by (simp add: linked_request)
next
  assume h: "branch_name selectedBranch = pre @ ''refs/heads/'' @ post
        \<and> list_all (\<lambda>k. \<not> prefix ''refs/heads/'' (drop k (branch_name selectedBranch)))
             [0..<length pre]"
  then have eq: "branch_name selectedBranch = pre @ ''refs/heads/'' @ post"
    and la: "list_all (\<lambda>k. \<not> prefix ''refs/heads/'' (drop k (branch_name selectedBranch)))
             [0..<length pre]"
    by blast+
  have "replace_first ''refs/heads/'' [] (pre @ ''refs/heads/'' @ post) = pre @ [] @ post"
    by (rule replace_first_first_occurrence [OF _ la [unfolded eq]]) simp
  with eq have "replace_first ''refs/heads/'' [] (branch_name selectedBranch) = pre @ post"
    by simp
  then show "map req_repositories
        (provisioningRequests (fst (submit env settings (Linked selectedProject selectedBranch))))
      = [Some [\<lparr>repositoryName = repo_name (branch_repo selectedBranch),
                branchName = pre @ post\<rparr>]]"
    by (simp add: linked_request)
next
  assume "\<not> (\<exists>before after. branch_name selectedBranch = before @ ''refs/heads/'' @ after)"
  then have "replace_first ''refs/heads/'' [] (branch_name selectedBranch) =
      branch_name selectedBranch"
    by (rule replace_first_absent)
  then show "map req_repositories
        (provisioningRequests (fst (submit env settings (Linked selectedProject selectedBranch))))
      = [Some [\<lparr>repositoryName = repo_name (branch_repo selectedBranch),
                branchName = branch_name selectedBranch\<rparr>]]"
    by (simp add: linked_request)
qed

theorem linked_branch_name_first_occurrence_removed_witness:
  "map req_repositories
     (provisioningRequests
        (fst (submit (projectDirectory None 404)
                \<lparr>settings_alias = None, instanceType = ''dev.standard1.small'',
                 inactivityTimeoutMinutes = 15, persistentStorage = 16\<rparr>
                (Linked \<lparr>project_name = ''shop'', project_org = \<lparr>org_name = ''acme''\<rparr>\<rparr>
                        \<lparr>branch_name = ''refs/heads/main'',
                         branch_repo = \<lparr>repo_name = ''web''\<rparr>\<rparr>))))
   = [Some [\<lparr>repositoryName = ''web'', branchName = ''main''\<rparr>]]
   \<and> map req_repositories
     (provisioningRequests
        (fst (submit (projectDirectory None 404)
                \<lparr>settings_alias = None, instanceType = ''dev.standard1.small'',
                 inactivityTimeoutMinutes = 15, persistentStorage = 16\<rparr>
                (Linked \<lparr>project_name = ''shop'', project_org = \<lparr>org_name = ''acme''\<rparr>\<rparr>
                        \<lparr>branch_name = ''feature/refs/heads/x'',
                         branch_repo = \<lparr>repo_name = ''web''\<rparr>\<rparr>))))
   = [Some [\<lparr>repositoryName = ''web'', branchName = ''feature/x''\<rparr>]]
   \<and> map req_repositories
     (provisioningRequests
        (fst (submit (projectDirectory None 404)
                \<lparr>settings_alias = None, instanceType = ''dev.standard1.small'',
                 inactivityTimeoutMinutes = 15, persistentStorage = 16\<rparr>
                (Linked \<lparr>project_name = ''shop'', project_org = \<lparr>org_name = ''acme''\<rparr>\<rparr>
                        \<lparr>branch_name = ''main'',
                         branch_repo = \<lparr>repo_name = ''web''\<rparr>\<rparr>))))
   = [Some [\<lparr>repositoryName = ''web'', branchName = ''main''\<rparr>]]"
proof -
  let ?settings = "\<lparr>settings_alias = None, instanceType = ''dev.standard1.small'',
      inactivityTimeoutMinutes = 15, persistentStorage = 16\<rparr>"
  let ?project = "\<lparr>project_name = ''shop'', project_org = \<lparr>org_name = ''acme''\<rparr>\<rparr>"
  have first: "list_all (\<lambda>k. \<not> prefix ''refs/heads/'' (drop k ''feature/refs/heads/x''))
      [0..<length ''feature/'']"
    by (simp add: upt_rec)
  have absent: "\<not> (\<exists>before after. ''main'' = before @ ''refs/heads/'' @ after)"
  proof
    assume "\<exists>before after. ''main'' = before @ ''refs/heads/'' @ after"
    then obtain before after where "''main'' = before @ ''refs/heads/'' @ after"
      by blast
    then have "length ''main'' = length (before @ ''refs/heads/'' @ after)"
      by (rule arg_cong)
    then show False by simp
  qed
  show ?thesis
    using linked_branch_name_first_occurrence_removed
        [of "\<lparr>branch_name = ''refs/heads/main'', branch_repo = \<lparr>repo_name = ''web''\<rparr>\<rparr>"
            "''main''" "projectDirectory None 404" ?settings ?project]
      linked_branch_name_first_occurrence_removed
        [of "\<lparr>branch_name = ''feature/refs/heads/x'', branch_repo = \<lparr>repo_name = ''web''\<rparr>\<rparr>"
            _ "projectDirectory None 404" ?settings ?project "''feature/''" "''x''"]
      linked_branch_name_first_occurrence_removed
        [of "\<lparr>branch_name = ''main'', branch_repo = \<lparr>repo_name = ''web''\<rparr>\<rparr>"
            _ "projectDirectory None 404" ?settings ?project]
      first absent
    by simp
qed

subsection \<open>Order in a trace of the wizard\<close>

lemma positions_step:
  "(\<forall>j<length (e # tr). \<forall>ws. C ws ((e # tr) ! j) \<longrightarrow>
       A ws \<or> (\<exists>i<j. R ws ((e # tr) ! i)))
   \<longleftrightarrow> ((\<forall>ws. C ws e \<longrightarrow> A ws)
        \<and> (\<forall>j<length tr. \<forall>ws. C ws (tr ! j) \<longrightarrow>
             A ws \<or> R ws e \<or> (\<exists>i<j. R ws (tr ! i))))"
  (is "?L \<longleftrightarrow> ?R")
proof
  assume L: ?L
  have "\<forall>ws. C ws e \<longrightarrow> A ws"
    using L [rule_format, of 0] by simp
  moreover have "A ws \<or> R ws e \<or> (\<exists>i<j. R ws (tr ! i))"
    if "j < length tr" "C ws (tr ! j)" for j ws
  proof -
    from L [rule_format, of "Suc j" ws] that
    have "A ws \<or> (\<exists>i<Suc j. R ws ((e # tr) ! i))" by simp
    then show ?thesis
      by (auto simp: less_Suc_eq_0_disj)
  qed
  ultimately show ?R by blast
next
  assume R: ?R
  show ?L
  proof (intro allI impI)
    fix j ws
    assume j: "j < length (e # tr)" and c: "C ws ((e # tr) ! j)"
    show "A ws \<or> (\<exists>i<j. R ws ((e # tr) ! i))"
    proof (cases j)
      case 0
      with c R show ?thesis by simp
    next
      case (Suc j')
      with j c R have "A ws \<or> R ws e \<or> (\<exists>i<j'. R ws (tr ! i))"
        by simp
      then show ?thesis
      proof (elim disjE exE conjE)
        assume "A ws"
        then show ?thesis by simp
      next
        assume "R ws e"
        then have "0 < j \<and> R ws ((e # tr) ! 0)"
          using Suc by simp
        then show ?thesis by blast
      next
        fix i
        assume "i < j'" "R ws (tr ! i)"
        then have "Suc i < j \<and> R ws ((e # tr) ! Suc i)"
          using Suc by simp
        then show ?thesis by blast
      qed
    qed
  qed
qed

text \<open>
  \<open>cloneFollows\<close> in terms of positions: a clone into a workspace is preceded by a
  provisioning call that returned this workspace (or the workspace was among those given
  at the start).
\<close>

lemma cloneFollows_positions:
  "cloneFollows provisioned tr \<longleftrightarrow>
     (\<forall>j<length tr. \<forall>ws. clonesInto ws (tr ! j) \<longrightarrow>
        ws \<in> set provisioned \<or> (\<exists>i<j. returnsWorkspace ws (tr ! i)))"
proof (induction provisioned tr rule: cloneFollows.induct)
  case (1 provisioned)
  show ?case by simp
next
  case (2 provisioned req ws tr)
  show ?case
    unfolding positions_step [where C = clonesInto and R = returnsWorkspace
        and A = "\<lambda>ws. ws \<in> set provisioned"]
    using "2.IH" by auto
next
  case (3 provisioned ws r res tr)
  show ?case
    unfolding positions_step [where C = clonesInto and R = returnsWorkspace
        and A = "\<lambda>ws. ws \<in> set provisioned"]
    using "3.IH" by auto
qed (unfold positions_step [where C = clonesInto and R = returnsWorkspace], auto)

subsection \<open>Order of the steps of a submission\<close>

lemma no_selection_after_provisioning:
  "noneAfter isSelection isProvisioning (fst (submit env settings source))"
  by (cases source)
    (auto simp: submission_defs
      split: sum.splits option.splits error.splits prod.splits if_splits)

lemma no_provisioning_after_unanswered_selection:
  "list_ex isUnansweredSelection (fst (submit env settings source)) \<Longrightarrow>
   \<not> list_ex isProvisioning (fst (submit env settings source))
   \<and> \<not> list_ex isClone (fst (submit env settings source))"
  by (cases source)
    (auto simp: submission_defs
      split: sum.splits option.splits error.splits prod.splits if_splits)

lemma empty_provisioning_needs_project:
  "list_ex isProvisioning (fst (submit env settings Empty)) \<Longrightarrow>
   \<exists>project. hd (fst (submit env settings Empty)) = SelectCawsResource_project (Inr (Some project))"
  by (auto simp: submission_defs
      split: sum.splits option.splits error.splits prod.splits if_splits)

lemma clone_provisioning_needs_org:
  "list_ex isProvisioning (fst (submit env settings (Clone url))) \<Longrightarrow>
   \<exists>org. hd (fst (submit env settings (Clone url))) = SelectCawsResource_org (Inr (Some org))"
  by (auto simp: submission_defs
      split: sum.splits option.splits error.splits prod.splits if_splits)

lemma empty_cancelled:
  "selectCawsResource_project env = Inr None \<Longrightarrow>
   submit env settings Empty =
     ([SelectCawsResource_project (Inr None)], Inl (CancellationError ''user''))"
  by (simp add: submission_defs)

lemma clone_cancelled:
  "selectCawsResource_org env = Inr None \<Longrightarrow> fst (submit env settings (Clone url)) \<noteq> [] \<Longrightarrow>
   submit env settings (Clone url) =
     ([SelectCawsResource_org (Inr None)], Inl (CancellationError ''user''))"
  by (auto simp: submission_defs
      split: sum.splits option.splits error.splits prod.splits if_splits)

lemma clone_follows_provisioning:
  "cloneFollowsProvisioning (fst (submit env settings source))"
  by (cases source)
    (auto simp: cloneFollowsProvisioning_def submission_defs
      split: sum.splits option.splits error.splits prod.splits if_splits)

lemma no_provisioning_after_clone:
  "noneAfter isProvisioning isClone (fst (submit env settings source))"
  by (cases source)
    (auto simp: submission_defs
      split: sum.splits option.splits error.splits prod.splits if_splits)

text \<open>
  Claim C6. In every submission, whatever the collaborators answer: no selection prompt
  comes after a provisioning call; when a selection prompt gives no resource (the user
  dismisses it, or it fails) the trace holds no provisioning call and no clone; a
  provisioning call of the empty variant has the selected project before it and one of the
  clone variant the selected organization. A dismissed prompt ends the submission with
  the cancellation error, the prompt being the only call made. Every clone operation is
  on a workspace that an earlier provisioning call of the same submission has returned,
  and no provisioning call comes after a clone.
\<close>

theorem provisioning_after_selections_clone_after_provisioning:
  "noneAfter isSelection isProvisioning (fst (submit env settings source))
   \<and> (list_ex isUnansweredSelection (fst (submit env settings source)) \<longrightarrow>
        \<not> list_ex isProvisioning (fst (submit env settings source))
        \<and> \<not> list_ex isClone (fst (submit env settings source)))
   \<and> (source = Empty \<and> list_ex isProvisioning (fst (submit env settings source)) \<longrightarrow>
        (\<exists>project. hd (fst (submit env settings source)) =
           SelectCawsResource_project (Inr (Some project))))
   \<and> ((\<exists>url. source = Clone url) \<and> list_ex isProvisioning (fst (submit env settings source)) \<longrightarrow>
        (\<exists>org. hd (fst (submit env settings source)) = SelectCawsResource_org (Inr (Some org))))
   \<and> (source = Empty \<and> selectCawsResource_project env = Inr None \<longrightarrow>
        submit env settings source =
          ([SelectCawsResource_project (Inr None)], Inl (CancellationError ''user'')))
   \<and> ((\<exists>url. source = Clone url) \<and> selectCawsResource_org env = Inr None
        \<and> fst (submit env settings source) \<noteq> [] \<longrightarrow>
        submit env settings source =
          ([SelectCawsResource_org (Inr None)], Inl (CancellationError ''user'')))
   \<and> cloneFollowsProvisioning (fst (submit env settings source))
   \<and> noneAfter isProvisioning isClone (fst (submit env settings source))"
  using no_selection_after_provisioning [of env settings source]
    no_provisioning_after_unanswered_selection [of env settings source]
    empty_provisioning_needs_project [of env settings]
    clone_provisioning_needs_org [of env settings]
    empty_cancelled [of env settings]
    clone_cancelled [of env settings]
    clone_follows_provisioning [of env settings source]
    no_provisioning_after_clone [of env settings source]
  by blast

theorem provisioning_after_selections_clone_after_provisioning_witness:
  "submit ((projectDirectory None 404)\<lparr>selectCawsResource_project := Inr None\<rparr>)
     \<lparr>settings_alias = None, instanceType = ''dev.standard1.small'',
      inactivityTimeoutMinutes = 15, persistentStorage = 16\<rparr> Empty =
     ([SelectCawsResource_project (Inr None)], Inl (CancellationError ''user''))
   \<and> submit ((projectDirectory None 404)\<lparr>selectCawsResource_org := Inr None\<rparr>)
       \<lparr>settings_alias = None, instanceType = ''dev.standard1.small'',
        inactivityTimeoutMinutes = 15, persistentStorage = 16\<rparr>
       (Clone ''git@host.example:org/repo.git'') =
     ([SelectCawsResource_org (Inr None)], Inl (CancellationError ''user''))
   \<and> list_ex isProvisioning
       (fst (submit (projectDirectory None 404)
               \<lparr>settings_alias = None, instanceType = ''dev.standard1.small'',
                inactivityTimeoutMinutes = 15, persistentStorage = 16\<rparr>
               (Clone ''git@host.example:org/repo.git'')))
   \<and> hd (fst (submit (projectDirectory None 404)
               \<lparr>settings_alias = None, instanceType = ''dev.standard1.small'',
                inactivityTimeoutMinutes = 15, persistentStorage = 16\<rparr>
               (Clone ''git@host.example:org/repo.git''))) =
       SelectCawsResource_org (Inr (Some \<lparr>org_name = ''acme''\<rparr>))"
proof -
  let ?settings = "\<lparr>settings_alias = None, instanceType = ''dev.standard1.small'',
      inactivityTimeoutMinutes = 15, persistentStorage = 16\<rparr>"
  let ?noProject = "(projectDirectory None 404)\<lparr>selectCawsResource_project := Inr None\<rparr>"
  let ?noOrg = "(projectDirectory None 404)\<lparr>selectCawsResource_org := Inr None\<rparr>"
  have p: "selectCawsResource_project ?noProject = Inr None"
    by simp
  have o: "selectCawsResource_org ?noOrg = Inr None"
    by simp
  have reached: "fst (submit ?noOrg ?settings (Clone ''git@host.example:org/repo.git'')) \<noteq> []"
    by (simp add: submission_defs projectDirectory_def withScheme_ssh_example
        uri_parse_ssh_example repoNameOf_ssh_example)
  have prov: "list_ex isProvisioning
       (fst (submit (projectDirectory None 404) ?settings (Clone ''git@host.example:org/repo.git'')))"
    by (simp add: submit_clone_example)
  show ?thesis
    using provisioning_after_selections_clone_after_provisioning [of ?noProject ?settings Empty]
      provisioning_after_selections_clone_after_provisioning
        [of ?noOrg ?settings "Clone ''git@host.example:org/repo.git''"]
      provisioning_after_selections_clone_after_provisioning
        [of "projectDirectory None 404" ?settings "Clone ''git@host.example:org/repo.git''"]
      p o reached prov
    by (simp add: submit_clone_example)
qed

subsection \<open>The IDE list of the provisioning requests\<close>

lemma provisioning_ides:
  "list_all (\<lambda>req. req_ides req = [\<lparr>ide_name = ''VSCode''\<rparr>])
     (provisioningRequests (fst (submit env settings source)))"
  by (cases source)
    (auto simp: submission_defs
      split: sum.splits option.splits error.splits prod.splits if_splits)

lemma provisioning_at_most_once:
  "length (provisioningRequests (fst (submit env settings source))) \<le> 1"
  by (cases source)
    (auto simp: submission_defs
      split: sum.splits option.splits error.splits prod.splits if_splits)

lemma provisioning_once_on_success:
  "snd (submit env settings source) = Inr u \<Longrightarrow>
   length (provisioningRequests (fst (submit env settings source))) = 1"
  by (cases source)
    (auto simp: submission_defs
      split: sum.splits option.splits error.splits prod.splits if_splits)

lemma provisioning_once_linked:
  "length (provisioningRequests (fst (submit env settings (Linked selectedProject selectedBranch)))) = 1"
  by (auto simp: submission_defs
      split: sum.splits option.splits error.splits prod.splits if_splits)

text \<open>
  Claim C10. Every provisioning request of a submission, whatever the source variant and
  whatever the collaborators answer, carries the IDE list with the one entry named
  \<open>VSCode\<close>. A submission makes at most one provisioning request, a linked submission
  and any submission that succeeds make exactly one.
\<close>

theorem provisioning_requests_name_VSCode:
  "list_all (\<lambda>req. req_ides req = [\<lparr>ide_name = ''VSCode''\<rparr>])
     (provisioningRequests (fst (submit env settings source)))
   \<and> length (provisioningRequests (fst (submit env settings source))) \<le> 1
   \<and> ((\<exists>u. snd (submit env settings source) = Inr u) \<longrightarrow>
        length (provisioningRequests (fst (submit env settings source))) = 1)
   \<and> ((\<exists>selectedProject selectedBranch. source = Linked selectedProject selectedBranch) \<longrightarrow>
        length (provisioningRequests (fst (submit env settings source))) = 1)"
  using provisioning_ides [of env settings source]
    provisioning_at_most_once [of env settings source]
    provisioning_once_on_success [of env settings source]
    provisioning_once_linked [of env settings]
  by blast

theorem provisioning_requests_name_VSCode_witness:
  "map req_ides
     (provisioningRequests
        (fst (submit (projectDirectory None 404)
                \<lparr>settings_alias = None, instanceType = ''dev.standard1.small'',
                 inactivityTimeoutMinutes = 15, persistentStorage = 16\<rparr> Empty))) =
     [[\<lparr>ide_name = ''VSCode''\<rparr>]]
   \<and> map req_ides
       (provisioningRequests
          (fst (submit (projectDirectory None 404)
                  \<lparr>settings_alias = None, instanceType = ''dev.standard1.small'',
                   inactivityTimeoutMinutes = 15, persistentStorage = 16\<rparr>
                  (Linked \<lparr>project_name = ''shop'', project_org = \<lparr>org_name = ''acme''\<rparr>\<rparr>
                     \<lparr>branch_name = ''refs/heads/main'',
                      branch_repo = \<lparr>repo_name = ''web''\<rparr>\<rparr>)))) =
     [[\<lparr>ide_name = ''VSCode''\<rparr>]]
   \<and> map req_ides
       (provisioningRequests
          (fst (submit (projectDirectory None 404)
                  \<lparr>settings_alias = None, instanceType = ''dev.standard1.small'',
                   inactivityTimeoutMinutes = 15, persistentStorage = 16\<rparr>
                  (Clone ''git@host.example:org/repo.git'')))) =
     [[\<lparr>ide_name = ''VSCode''\<rparr>]]"
proof -
  let ?settings = "\<lparr>settings_alias = None, instanceType = ''dev.standard1.small'',
      inactivityTimeoutMinutes = 15, persistentStorage = 16\<rparr>"
  let ?linked = "Linked \<lparr>project_name = ''shop'', project_org = \<lparr>org_name = ''acme''\<rparr>\<rparr>
      \<lparr>branch_name = ''refs/heads/main'', branch_repo = \<lparr>repo_name = ''web''\<rparr>\<rparr>"
  let ?clone = "Clone ''git@host.example:org/repo.git''"
  have ok: "snd (submit (projectDirectory None 404) ?settings Empty) = Inr ()"
      "snd (submit (projectDirectory None 404) ?settings ?clone) = Inr ()"
    by (simp_all add: submit_clone_example)
      (simp add: submission_defs projectDirectory_def)
  have one: "list_all (\<lambda>req. req_ides req = v) xs \<Longrightarrow> length xs = 1 \<Longrightarrow> map req_ides xs = [v]"
    for v and xs :: "createWorkspaceRequest list"
    by (cases xs) auto
  have empty: "map req_ides
      (provisioningRequests (fst (submit (projectDirectory None 404) ?settings Empty))) =
      [[\<lparr>ide_name = ''VSCode''\<rparr>]]"
  proof (rule one)
    show "list_all (\<lambda>req. req_ides req = [\<lparr>ide_name = ''VSCode''\<rparr>])
        (provisioningRequests (fst (submit (projectDirectory None 404) ?settings Empty)))"
      using provisioning_requests_name_VSCode [of "projectDirectory None 404" ?settings Empty]
      by (rule conjunct1)
    show "length (provisioningRequests
        (fst (submit (projectDirectory None 404) ?settings Empty))) = 1"
      using provisioning_requests_name_VSCode [of "projectDirectory None 404" ?settings Empty]
        ok(1)
      by blast
  qed
  have linked: "map req_ides
      (provisioningRequests (fst (submit (projectDirectory None 404) ?settings ?linked))) =
      [[\<lparr>ide_name = ''VSCode''\<rparr>]]"
  proof (rule one)
    show "list_all (\<lambda>req. req_ides req = [\<lparr>ide_name = ''VSCode''\<rparr>])
        (provisioningRequests (fst (submit (projectDirectory None 404) ?settings ?linked)))"
      using provisioning_requests_name_VSCode [of "projectDirectory None 404" ?settings ?linked]
      by (rule conjunct1)
    show "length (provisioningRequests
        (fst (submit (projectDirectory None 404) ?settings ?linked))) = 1"
      using provisioning_requests_name_VSCode [of "projectDirectory None 404" ?settings ?linked]
      by blast
  qed
  have clone: "map req_ides
      (provisioningRequests (fst (submit (projectDirectory None 404) ?settings ?clone))) =
      [[\<lparr>ide_name = ''VSCode''\<rparr>]]"
  proof (rule one)
    show "list_all (\<lambda>req. req_ides req = [\<lparr>ide_name = ''VSCode''\<rparr>])
        (provisioningRequests (fst (submit (projectDirectory None 404) ?settings ?clone)))"
      using provisioning_requests_name_VSCode [of "projectDirectory None 404" ?settings ?clone]
      by (rule conjunct1)
    show "length (provisioningRequests
        (fst (submit (projectDirectory None 404) ?settings ?clone))) = 1"
      using provisioning_requests_name_VSCode [of "projectDirectory None 404" ?settings ?clone]
        ok(2)
      by blast
  qed
  from empty linked clone show ?thesis
    by (intro conjI)
qed

section \<open>Properties of the panel singleton\<close>

lemma panelInv_initial: "panelInv initialPanelState"
  by (simp add: panelInv_def initialPanelState_def)

lemma panelInv_show: "panelInv s \<Longrightarrow> panelInv (showCreateWorkspace s)"
  by (auto simp: panelInv_def showCreateWorkspace_def ensureActivePanel_def Let_def
      split: option.splits)

lemma panelInv_dispose: "panelInv s \<Longrightarrow> panelInv (disposeWebview p s)"
  by (auto simp: panelInv_def disposeWebview_def onDidDispose_listener_def Let_def
      split: option.splits)

lemma panelInv_foldl: "panelInv s \<Longrightarrow> panelInv (foldl runPanelOp s ops)"
proof (induction ops arbitrary: s)
  case Nil
  then show ?case by simp
next
  case (Cons op ops)
  have "panelInv (runPanelOp s op)"
    using Cons.prems by (cases op) (simp_all add: panelInv_show panelInv_dispose)
  then show ?case
    using Cons.IH by simp
qed

lemma panelInv_reachable: "panelInv (runPanelOps ops)"
  unfolding runPanelOps_def by (rule panelInv_foldl) (rule panelInv_initial)

lemma show_twice:
  assumes "panelInv s"
  shows "\<exists>p. activePanel (showCreateWorkspace s) = Some p
    \<and> activePanel (showCreateWorkspace (showCreateWorkspace s)) = Some p
    \<and> panelCount (showCreateWorkspace (showCreateWorkspace s)) = panelCount (showCreateWorkspace s)
    \<and> openPanels (showCreateWorkspace s) = [p]
    \<and> openPanels (showCreateWorkspace (showCreateWorkspace s)) = [p]
    \<and> subscriptions (showCreateWorkspace (showCreateWorkspace s)) = Some [p]
    \<and> shown (showCreateWorkspace (showCreateWorkspace s)) = shown (showCreateWorkspace s) @ [p]"
  using assms
  by (auto simp: panelInv_def showCreateWorkspace_def ensureActivePanel_def Let_def
      split: option.splits)

lemma dispose_then_show:
  assumes "panelInv s" and "activePanel s = Some p"
  shows "activePanel (disposeWebview p s) = None
    \<and> subscriptions (disposeWebview p s) = None
    \<and> openPanels (disposeWebview p s) = []
    \<and> disposedSubscriptions (disposeWebview p s) = disposedSubscriptions s @ [p]
    \<and> panelCount (disposeWebview p s) = panelCount s
    \<and> activePanel (showCreateWorkspace (disposeWebview p s)) = Some (panelCount s)
    \<and> panelCount s \<noteq> p
    \<and> panelCount (showCreateWorkspace (disposeWebview p s)) = Suc (panelCount s)
    \<and> openPanels (showCreateWorkspace (disposeWebview p s)) = [panelCount s]
    \<and> subscriptions (showCreateWorkspace (disposeWebview p s)) = Some [panelCount s]"
  using assms
  by (auto simp: panelInv_def disposeWebview_def onDidDispose_listener_def
      showCreateWorkspace_def ensureActivePanel_def Let_def split: option.splits)

text \<open>
  Claim C9. In every state the module can reach by requests for the panel and disposals
  of webviews, at most one panel instance is open. Two requests in a row construct no
  second instance: after the first there is an active panel, the second leaves the count
  of constructed instances and the open panel as they are and calls \<open>show\<close> on that same
  instance again. When the webview of the active panel is disposed, the listener disposes
  the subscriptions and clears both \<open>activePanel\<close> and \<open>subscriptions\<close>; the next
  request then constructs a new instance, different from the disposed one, makes it the
  active panel and registers a new listener on it.
\<close>

theorem panel_singleton:
  "length (openPanels (runPanelOps ops)) \<le> 1
   \<and> (\<exists>p. activePanel (showCreateWorkspace (runPanelOps ops)) = Some p
        \<and> activePanel (showCreateWorkspace (showCreateWorkspace (runPanelOps ops))) = Some p
        \<and> panelCount (showCreateWorkspace (showCreateWorkspace (runPanelOps ops))) =
            panelCount (showCreateWorkspace (runPanelOps ops))
        \<and> openPanels (showCreateWorkspace (showCreateWorkspace (runPanelOps ops))) = [p]
        \<and> shown (showCreateWorkspace (showCreateWorkspace (runPanelOps ops))) =
            shown (showCreateWorkspace (runPanelOps ops)) @ [p])
   \<and> (\<forall>p. activePanel (runPanelOps ops) = Some p \<longrightarrow>
        activePanel (disposeWebview p (runPanelOps ops)) = None
        \<and> subscriptions (disposeWebview p (runPanelOps ops)) = None
        \<and> openPanels (disposeWebview p (runPanelOps ops)) = []
        \<and> disposedSubscriptions (disposeWebview p (runPanelOps ops)) =
            disposedSubscriptions (runPanelOps ops) @ [p]
        \<and> activePanel (showCreateWorkspace (disposeWebview p (runPanelOps ops))) =
            Some (panelCount (runPanelOps ops))
        \<and> panelCount (runPanelOps ops) \<noteq> p
        \<and> panelCount (showCreateWorkspace (disposeWebview p (runPanelOps ops))) =
            Suc (panelCount (runPanelOps ops))
        \<and> openPanels (showCreateWorkspace (disposeWebview p (runPanelOps ops))) =
            [panelCount (runPanelOps ops)]
        \<and> subscriptions (showCreateWorkspace (disposeWebview p (runPanelOps ops))) =
            Some [panelCount (runPanelOps ops)])"
proof -
  have inv: "panelInv (runPanelOps ops)"
    by (rule panelInv_reachable)
  have one: "length (openPanels (runPanelOps ops)) \<le> 1"
    using inv by (auto simp: panelInv_def split: option.splits)
  have twice: "\<exists>p. activePanel (showCreateWorkspace (runPanelOps ops)) = Some p
        \<and> activePanel (showCreateWorkspace (showCreateWorkspace (runPanelOps ops))) = Some p
        \<and> panelCount (showCreateWorkspace (showCreateWorkspace (runPanelOps ops))) =
            panelCount (showCreateWorkspace (runPanelOps ops))
        \<and> openPanels (showCreateWorkspace (showCreateWorkspace (runPanelOps ops))) = [p]
        \<and> shown (showCreateWorkspace (showCreateWorkspace (runPanelOps ops))) =
            shown (showCreateWorkspace (runPanelOps ops)) @ [p]"
    using show_twice [OF inv] by blast
  show ?thesis
    using one twice dispose_then_show [OF inv] by blast
qed

theorem panel_singleton_witness:
  "activePanel (runPanelOps [RequestPanel]) = Some 0
   \<and> activePanel (disposeWebview 0 (runPanelOps [RequestPanel])) = None
   \<and> subscriptions (disposeWebview 0 (runPanelOps [RequestPanel])) = None
   \<and> activePanel (showCreateWorkspace (disposeWebview 0 (runPanelOps [RequestPanel]))) = Some 1
   \<and> openPanels (runPanelOps [RequestPanel, RequestPanel]) = [0]
   \<and> shown (runPanelOps [RequestPanel, RequestPanel]) = [0, 0]"
proof -
  have a: "activePanel (runPanelOps [RequestPanel]) = Some 0"
    by (simp add: runPanelOps_def initialPanelState_def showCreateWorkspace_def
        ensureActivePanel_def)
  have c: "panelCount (runPanelOps [RequestPanel]) = 1"
    by (simp add: runPanelOps_def initialPanelState_def showCreateWorkspace_def
        ensureActivePanel_def)
  have twice: "openPanels (runPanelOps [RequestPanel, RequestPanel]) = [0]
      \<and> shown (runPanelOps [RequestPanel, RequestPanel]) = [0, 0]"
    by (simp add: runPanelOps_def initialPanelState_def showCreateWorkspace_def
        ensureActivePanel_def)
  show ?thesis
    using panel_singleton [of "[RequestPanel]"] a c twice by simp
qed

end
